theory Spec2Isabelle
  imports Main "HOL-Library.Word"
begin

section \<open>Data model\<close>

text \<open>
  The program lists the files of a Drive folder, downloads each one, mirrors it to a
  storage bucket, asks a generative model for a description and appends one CSV record
  per file. A Go \<open>error\<close> is modelled by its message, a \<open>[]byte\<close> as a list of
  8-bit words, and \<open>drive.File\<close> by the three fields the program reads.
\<close>

type_synonym err = string
type_synonym byte = "8 word"

record File =
  file_Id :: string
  file_Name :: string
  file_MimeType :: string

text \<open>The package-level variables that the flags are bound to.\<close>

record globals =
  sourceFolderID :: string
  localFolderName :: string
  maxFiles :: int
  gcsBucket :: string
  gcsFolderPath :: string
  alwaysUploadToGCS :: bool
  createDescription :: bool
  customPromptLocation :: string
  mimeTypes :: "string list"
  mimeTypesFlag :: string

text \<open>The command line: for each flag, the value the user supplied, if any.\<close>

record cmdline =
  arg_folder :: "string option"
  arg_local :: "string option"
  arg_max :: "int option"
  arg_gcs_bucket :: "string option"
  arg_gcs_path :: "string option"
  arg_always_upload :: "bool option"
  arg_describe :: "bool option"
  arg_prompt :: "string option"
  arg_mime_types :: "string option"

section \<open>String helpers of the Go library\<close>

text \<open>\<open>strings.Split s sep\<close> for a one-character separator: the pieces between
  occurrences of the separator, the empty string giving one empty piece.\<close>

fun strings_Split :: "string \<Rightarrow> char \<Rightarrow> string list" where
  "strings_Split [] sep = [[]]"
| "strings_Split (c # cs) sep =
     (if c = sep then [] # strings_Split cs sep
      else (case strings_Split cs sep of
              [] \<Rightarrow> [[c]]
            | p # ps \<Rightarrow> (c # p) # ps))"

fun strings_Join :: "string list \<Rightarrow> string \<Rightarrow> string" where
  "strings_Join [] sep = []"
| "strings_Join [x] sep = x"
| "strings_Join (x # y # ys) sep = x @ sep @ strings_Join (y # ys) sep"

text \<open>The verb \<open>%d\<close> of \<open>fmt.Sprintf\<close>: a decimal numeral, with a sign when negative.\<close>

definition digitChar :: "nat \<Rightarrow> char" where
  "digitChar n = ''0123456789'' ! n"

fun digitsOf :: "nat \<Rightarrow> string" where
  "digitsOf n = (if n < 10 then [digitChar n] else digitsOf (n div 10) @ [digitChar (n mod 10)])"

declare digitsOf.simps [simp del]

definition itoa :: "int \<Rightarrow> string" where
  "itoa i = (if i < 0 then CHR ''-'' # digitsOf (nat (- i)) else digitsOf (nat i))"

section \<open>Flag handling: \<open>init\<close>\<close>

text \<open>
  \<open>flag.StringVar\<close>, \<open>flag.IntVar\<close> and \<open>flag.BoolVar\<close> store the default in the bound
  variable; \<open>flag.String\<close> allocates a cell of its own (here the field
  \<open>mimeTypesFlag\<close>) holding the default. \<open>flag.Parse\<close> then overwrites every variable
  and cell whose flag is present on the command line.
\<close>

definition zero_globals :: globals where
  "zero_globals =
     \<lparr> sourceFolderID = '''', localFolderName = ''local'', maxFiles = 0,
       gcsBucket = '''', gcsFolderPath = '''', alwaysUploadToGCS = False,
       createDescription = False, customPromptLocation = '''', mimeTypes = [],
       mimeTypesFlag = '''' \<rparr>"

definition register_flags :: "globals \<Rightarrow> globals" where
  "register_flags g =
     g \<lparr> sourceFolderID := sourceFolderID g,
         localFolderName := localFolderName g,
         maxFiles := maxFiles g,
         gcsBucket := '''',
         gcsFolderPath := '''',
         alwaysUploadToGCS := False,
         createDescription := True,
         customPromptLocation := '''',
         mimeTypesFlag := ''image/jpeg,image/png'' \<rparr>"

definition flag_value :: "'a option \<Rightarrow> 'a \<Rightarrow> 'a" where
  "flag_value supplied current = (case supplied of None \<Rightarrow> current | Some v \<Rightarrow> v)"

definition flag_Parse :: "cmdline \<Rightarrow> globals \<Rightarrow> globals" where
  "flag_Parse args g =
     g \<lparr> sourceFolderID := flag_value (arg_folder args) (sourceFolderID g),
         localFolderName := flag_value (arg_local args) (localFolderName g),
         maxFiles := flag_value (arg_max args) (maxFiles g),
         gcsBucket := flag_value (arg_gcs_bucket args) (gcsBucket g),
         gcsFolderPath := flag_value (arg_gcs_path args) (gcsFolderPath g),
         alwaysUploadToGCS := flag_value (arg_always_upload args) (alwaysUploadToGCS g),
         createDescription := flag_value (arg_describe args) (createDescription g),
         customPromptLocation := flag_value (arg_prompt args) (customPromptLocation g),
         mimeTypesFlag := flag_value (arg_mime_types args) (mimeTypesFlag g) \<rparr>"

text \<open>\<open>init\<close>: register the flags, split the content of the mime-types cell, then parse.\<close>

definition init :: "cmdline \<Rightarrow> globals" where
  "init args =
     (let g1 = register_flags zero_globals;
          g2 = g1 \<lparr> mimeTypes := strings_Split (mimeTypesFlag g1) CHR '','' \<rparr>
      in flag_Parse args g2)"

section \<open>The Asset Lister's query\<close>

text \<open>The query string that \<open>listFiles\<close> hands to the Drive service.\<close>

definition buildQuery :: "string \<Rightarrow> string list \<Rightarrow> string" where
  "buildQuery folderID mts =
     (let mimeQueryParts = map (\<lambda>mimeType. ''mimeType = '' @ [CHR 0x27] @ mimeType @ [CHR 0x27]) mts;
          mimeQuery = strings_Join mimeQueryParts '' or ''
      in [CHR 0x27] @ folderID @ [CHR 0x27] @ '' in parents and ('' @ mimeQuery @ '')'')"

section \<open>External services and the world\<close>

text \<open>
  Every call that leaves the process is answered by the environment: the record
  \<open>services\<close> fixes, for each such call, whether it fails and what it returns. What
  the program itself changes is kept in the record \<open>world\<close>: the local file system, the
  objects of the bucket, the records appended to the CSV writer, and the trace of the
  calls made. Log output is not modelled.

  For \<open>download\<close>, \<open>Inl e\<close> is a call of \<open>Download\<close> that returns the error \<open>e\<close>; the
  Drive client does so when the transfer fails and for every response whose status is
  outside 200 to 299. \<open>Inr (status, body)\<close> is a response with that status, and \<open>body\<close>
  is the outcome of reading its content.
\<close>

type_synonym template = "string \<Rightarrow> err + string"

record services =
  filesList :: "string \<Rightarrow> err + File option list"
  download :: "string \<Rightarrow> err + (int \<times> (err + byte list))"
  statErr :: "string \<Rightarrow> err option"
  mkdirAllErr :: "string \<Rightarrow> err option"
  writeFileErr :: "string \<Rightarrow> err option"
  filepath_Join :: "string \<Rightarrow> string \<Rightarrow> string"
  newClientErr :: "err option"
  attrsErr :: "string \<Rightarrow> string \<Rightarrow> err option"
  objectWriteErr :: "string \<Rightarrow> string \<Rightarrow> err option"
  objectCloseErr :: "string \<Rightarrow> string \<Rightarrow> err option"
  parseFiles :: "string \<Rightarrow> err + template"
  builtinTemplate :: "err + template"
  generateContent :: "byte list \<Rightarrow> string \<Rightarrow> string \<Rightarrow> err + string"
  createErr :: "err option"
  csvWriteErr :: "string list \<Rightarrow> err option"

datatype node = Dir | Reg "byte list"

datatype event =
    CallDownload string
  | CallMkdirAll string
  | CallWriteFile string
  | CallAttrs string string
  | CallObjectWrite string string
  | CallGenerateContent string

record world =
  fs :: "string \<rightharpoonup> node"
  gcs :: "string \<times> string \<rightharpoonup> byte list"
  csvRows :: "string list list"
  trace :: "event list"

text \<open>\<open>log.Fatalf\<close> and \<open>panic\<close> end the whole process: the outcome \<open>Fatal\<close>.\<close>

datatype 'a outcome = Fatal err | Ret 'a

definition emit :: "event \<Rightarrow> world \<Rightarrow> world" where
  "emit e w = w \<lparr> trace := trace w @ [e] \<rparr>"

datatype stat_result = StatOK | StatNotExist | StatErr err

definition os_Stat :: "services \<Rightarrow> world \<Rightarrow> string \<Rightarrow> stat_result" where
  "os_Stat sv w p =
     (case statErr sv p of
        Some e \<Rightarrow> StatErr e
      | None \<Rightarrow> if fs w p = None then StatNotExist else StatOK)"

definition os_MkdirAll :: "services \<Rightarrow> world \<Rightarrow> string \<Rightarrow> err option \<times> world" where
  "os_MkdirAll sv w p =
     (let w1 = emit (CallMkdirAll p) w in
      case mkdirAllErr sv p of
        Some e \<Rightarrow> (Some e, w1)
      | None \<Rightarrow> (None, w1 \<lparr> fs := (fs w1)(p \<mapsto> Dir) \<rparr>))"

definition os_WriteFile :: "services \<Rightarrow> world \<Rightarrow> string \<Rightarrow> byte list \<Rightarrow> err option \<times> world" where
  "os_WriteFile sv w p bs =
     (let w1 = emit (CallWriteFile p) w in
      case writeFileErr sv p of
        Some e \<Rightarrow> (Some e, w1)
      | None \<Rightarrow> (None, w1 \<lparr> fs := (fs w1)(p \<mapsto> Reg bs) \<rparr>))"

section \<open>The Downloader: \<open>getFileBytes\<close>\<close>

definition getFileBytes ::
  "services \<Rightarrow> globals \<Rightarrow> world \<Rightarrow> File \<Rightarrow> (err + byte list) outcome \<times> world" where
  "getFileBytes sv g w file =
     (let w1 = emit (CallDownload (file_Id file)) w in
      case download sv (file_Id file) of
        Inl e \<Rightarrow> (Fatal (''Error downloading file: '' @ e), w1)
      | Inr (statusCode, body) \<Rightarrow>
          if statusCode \<noteq> 200
          then (Ret (Inl (''Error: HTTP status code '' @ itoa statusCode)), w1)
          else
            (case body of
               Inl e \<Rightarrow> (Ret (Inl (''Unable to read response body: '' @ e)), w1)
             | Inr fileBytes \<Rightarrow>
                 (case (if os_Stat sv w1 (localFolderName g) = StatNotExist
                        then os_MkdirAll sv w1 (localFolderName g) else (None, w1)) of
                    (Some e, w2) \<Rightarrow> (Ret (Inl (''Unable to create local folder: '' @ e)), w2)
                  | (None, w2) \<Rightarrow>
                      (let localFilePath = filepath_Join sv (localFolderName g) (file_Name file) in
                       case os_Stat sv w2 localFilePath of
                         StatNotExist \<Rightarrow>
                           (case os_WriteFile sv w2 localFilePath fileBytes of
                              (Some e, w3) \<Rightarrow> (Ret (Inl (''unable to write file: '' @ e)), w3)
                            | (None, w3) \<Rightarrow> (Ret (Inr fileBytes), w3))
                       | StatErr e \<Rightarrow> (Ret (Inl (''error checking if file exists: '' @ e)), w2)
                       | StatOK \<Rightarrow> (Ret (Inr fileBytes), w2)))))"

section \<open>The Mirror Uploader: \<open>uploadFileToGCS\<close>\<close>

datatype attrs_result = AttrsFound | AttrsNotExist | AttrsErr err

definition object_Attrs :: "services \<Rightarrow> world \<Rightarrow> string \<Rightarrow> string \<Rightarrow> attrs_result" where
  "object_Attrs sv w bucketName objectPath =
     (case attrsErr sv bucketName objectPath of
        Some e \<Rightarrow> AttrsErr e
      | None \<Rightarrow> if gcs w (bucketName, objectPath) = None then AttrsNotExist else AttrsFound)"

text \<open>The writer of an object: \<open>Write\<close>, then \<open>Close\<close>, which makes the object visible.\<close>

definition object_write ::
  "services \<Rightarrow> world \<Rightarrow> string \<Rightarrow> string \<Rightarrow> byte list \<Rightarrow> err option \<times> world" where
  "object_write sv w bucketName objectPath fileBytes =
     (let w1 = emit (CallObjectWrite bucketName objectPath) w in
      case objectWriteErr sv bucketName objectPath of
        Some e \<Rightarrow> (Some (''failed to write file to GCS: '' @ e), w1)
      | None \<Rightarrow>
          (case objectCloseErr sv bucketName objectPath of
             Some e \<Rightarrow> (Some (''failed to close writer: '' @ e), w1)
           | None \<Rightarrow> (None, w1 \<lparr> gcs := (gcs w1)((bucketName, objectPath) \<mapsto> fileBytes) \<rparr>)))"

definition uploadFileToGCS ::
  "services \<Rightarrow> world \<Rightarrow> string \<Rightarrow> string \<Rightarrow> string \<Rightarrow> byte list \<Rightarrow> bool
     \<Rightarrow> err option \<times> world" where
  "uploadFileToGCS sv w bucketName folderPath objectName fileBytes overrideFlag =
     (case newClientErr sv of
        Some e \<Rightarrow> (Some (''failed to create client: '' @ e), w)
      | None \<Rightarrow>
          (let objectPath = filepath_Join sv folderPath objectName in
           if \<not> overrideFlag
           then
             (let w1 = emit (CallAttrs bucketName objectPath) w in
              case object_Attrs sv w1 bucketName objectPath of
                AttrsFound \<Rightarrow> (None, w1)
              | AttrsErr e \<Rightarrow> (Some (''failed to check object existence: '' @ e), w1)
              | AttrsNotExist \<Rightarrow> object_write sv w1 bucketName objectPath fileBytes)
           else object_write sv w bucketName objectPath fileBytes))"

section \<open>The Describer: \<open>describe\<close>\<close>

definition describe ::
  "services \<Rightarrow> globals \<Rightarrow> world \<Rightarrow> File \<Rightarrow> (string \<times> int \<times> err option) outcome \<times> world" where
  "describe sv g w imageFile =
     (case getFileBytes sv g w imageFile of
        (Fatal e, w1) \<Rightarrow> (Fatal e, w1)
      | (Ret (Inl e), w1) \<Rightarrow> (Ret ('''', 0, Some e), w1)
      | (Ret (Inr fileBytes), w1) \<Rightarrow>
          (case uploadFileToGCS sv w1 (gcsBucket g) (gcsFolderPath g) (file_Name imageFile)
                  fileBytes (alwaysUploadToGCS g) of
             (uploadErr, w2) \<Rightarrow>
               (let byteCount = int (length fileBytes) in
                if createDescription g
                then
                  (case (if customPromptLocation g \<noteq> ''''
                         then (case parseFiles sv (customPromptLocation g) of
                                 Inl e \<Rightarrow> Ret (Inl (''failed to parse custom template: '' @ e))
                               | Inr t \<Rightarrow> Ret (Inr t))
                         else (case builtinTemplate sv of
                                 Inl e \<Rightarrow> Fatal e
                               | Inr t \<Rightarrow> Ret (Inr t))) of
                     Fatal e \<Rightarrow> (Fatal e, w2)
                   | Ret (Inl e) \<Rightarrow> (Ret ('''', 0, Some e), w2)
                   | Ret (Inr tmpl) \<Rightarrow>
                       (case tmpl (file_Name imageFile) of
                          Inl e \<Rightarrow> (Ret ('''', 0, Some e), w2)
                        | Inr prompt \<Rightarrow>
                            (let w3 = emit (CallGenerateContent (file_Name imageFile)) w2 in
                             case generateContent sv fileBytes (file_MimeType imageFile) prompt of
                               Inl e \<Rightarrow> (Ret ('''', 0, None), w3)
                             | Inr descriptionText \<Rightarrow>
                                 (Ret (descriptionText, byteCount, None), w3))))
                else (Ret (''Description skipped'', byteCount, None), w2))))"

section \<open>The Orchestrator: the task of one file and \<open>main\<close>\<close>

definition csv_Write :: "services \<Rightarrow> world \<Rightarrow> string list \<Rightarrow> err option \<times> world" where
  "csv_Write sv w r =
     (case csvWriteErr sv r of
        Some e \<Rightarrow> (Some e, w)
      | None \<Rightarrow> (None, w \<lparr> csvRows := csvRows w @ [r] \<rparr>))"

text \<open>The record that the task of a file builds from the result of \<open>describe\<close>.\<close>

definition csvRecord :: "File \<Rightarrow> string \<times> int \<times> err option \<Rightarrow> string list" where
  "csvRecord file res =
     (case res of
        (description, byteSize, e) \<Rightarrow>
          [file_Name file, itoa byteSize, file_MimeType file, file_Id file,
           (case e of Some msg \<Rightarrow> ''Error: '' @ msg | None \<Rightarrow> description)])"

text \<open>The body of the goroutine started for one file.\<close>

definition task :: "services \<Rightarrow> globals \<Rightarrow> world \<Rightarrow> File \<Rightarrow> unit outcome \<times> world" where
  "task sv g w file =
     (case describe sv g w file of
        (Fatal e, w1) \<Rightarrow> (Fatal e, w1)
      | (Ret res, w1) \<Rightarrow> (Ret (), snd (csv_Write sv w1 (csvRecord file res))))"

text \<open>
  The schedule in which every task runs to its end before the next one starts; a fatal
  exit inside a task ends the process, whatever tasks remain. It is one of the runs of
  the program; all of them are the subject of the section on goroutines below.
\<close>

fun runTasks :: "services \<Rightarrow> globals \<Rightarrow> world \<Rightarrow> File list \<Rightarrow> unit outcome \<times> world" where
  "runTasks sv g w [] = (Ret (), w)"
| "runTasks sv g w (f # rest) =
     (case task sv g w f of
        (Fatal e, w1) \<Rightarrow> (Fatal e, w1)
      | (Ret u, w1) \<Rightarrow> runTasks sv g w1 rest)"

definition listFiles ::
  "services \<Rightarrow> world \<Rightarrow> string \<Rightarrow> string list \<Rightarrow> File list outcome \<times> world" where
  "listFiles sv w folderID mts =
     (let query = buildQuery folderID mts in
      case filesList sv query of
        Inl e \<Rightarrow> (Fatal (''error occurred while listing files: '' @ e), w)
      | Inr fl \<Rightarrow> (Ret (List.map_filter (\<lambda>f. f) fl), w))"

definition fileCountOf :: "globals \<Rightarrow> File list \<Rightarrow> nat" where
  "fileCountOf g fileList =
     (if maxFiles g > 0 \<and> maxFiles g < int (length fileList)
      then nat (maxFiles g) else length fileList)"

text \<open>The model calls recorded in the trace of a world, by file name.\<close>

fun generateCallOf :: "event \<Rightarrow> string option" where
  "generateCallOf (CallGenerateContent n) = Some n"
| "generateCallOf (CallDownload i) = None"
| "generateCallOf (CallMkdirAll p) = None"
| "generateCallOf (CallWriteFile p) = None"
| "generateCallOf (CallAttrs b p) = None"
| "generateCallOf (CallObjectWrite b p) = None"

definition generateCalls :: "world \<Rightarrow> string list" where
  "generateCalls w = List.map_filter generateCallOf (trace w)"

section \<open>The tasks as goroutines\<close>

text \<open>
  \<open>main\<close> starts one goroutine per file and nothing orders them: between any two calls
  of one goroutine, the others may run. A goroutine is therefore a sequence of steps,
  and a run is any interleaving of the steps of the goroutines started. A step is one
  call that reads or writes what the goroutines share (the local file system, the
  bucket, the CSV writer). The resolution of the template together with the model call,
  which touch nothing shared, are one step. The position of a goroutine records the
  step it takes next and the local values it holds.
\<close>

text \<open>The part of \<open>describe\<close> after the upload: lines 219 to 272.\<close>

definition describeBytes ::
  "services \<Rightarrow> globals \<Rightarrow> world \<Rightarrow> File \<Rightarrow> byte list
     \<Rightarrow> (string \<times> int \<times> err option) outcome \<times> world" where
  "describeBytes sv g w2 imageFile fileBytes =
     (let byteCount = int (length fileBytes) in
      if createDescription g
      then
        (case (if customPromptLocation g \<noteq> ''''
               then (case parseFiles sv (customPromptLocation g) of
                       Inl e \<Rightarrow> Ret (Inl (''failed to parse custom template: '' @ e))
                     | Inr t \<Rightarrow> Ret (Inr t))
               else (case builtinTemplate sv of
                       Inl e \<Rightarrow> Fatal e
                     | Inr t \<Rightarrow> Ret (Inr t))) of
           Fatal e \<Rightarrow> (Fatal e, w2)
         | Ret (Inl e) \<Rightarrow> (Ret ('''', 0, Some e), w2)
         | Ret (Inr tmpl) \<Rightarrow>
             (case tmpl (file_Name imageFile) of
                Inl e \<Rightarrow> (Ret ('''', 0, Some e), w2)
              | Inr prompt \<Rightarrow>
                  (let w3 = emit (CallGenerateContent (file_Name imageFile)) w2 in
                   case generateContent sv fileBytes (file_MimeType imageFile) prompt of
                     Inl e \<Rightarrow> (Ret ('''', 0, None), w3)
                   | Inr descriptionText \<Rightarrow>
                       (Ret (descriptionText, byteCount, None), w3))))
      else (Ret (''Description skipped'', byteCount, None), w2))"

text \<open>
  \<open>csv.Writer.Write\<close> takes no lock. It hands the record to its buffer piece by piece:
  for each field a comma (except before the first) and the field, and at the end the
  line break. What has reached the buffer is a sequence of such pieces.
\<close>

datatype token = Field string | Comma | Newline

fun recordTokens :: "string list \<Rightarrow> token list" where
  "recordTokens [] = [Newline]"
| "recordTokens [x] = [Field x, Newline]"
| "recordTokens (x # y # ys) = Field x # Comma # recordTokens (y # ys)"

datatype pc =
    AtDownload
  | AtStatFolder "byte list"
  | AtMkdirAll "byte list"
  | AtStatFile "byte list"
  | AtWriteFile "byte list"
  | AtUpload "byte list"
  | AtAttrs "byte list"
  | AtObjectWrite "byte list"
  | AtDescribe "byte list"
  | AtCsvWrite "string list" nat
  | Finished

definition localPath :: "services \<Rightarrow> globals \<Rightarrow> File \<Rightarrow> string" where
  "localPath sv g file = filepath_Join sv (localFolderName g) (file_Name file)"

text \<open>
  Where a goroutine goes when \<open>describe\<close> returns the error \<open>e\<close>: to the write of the
  record that carries the error text.
\<close>

definition failedWith :: "File \<Rightarrow> err \<Rightarrow> pc" where
  "failedWith file e = AtCsvWrite (csvRecord file ('''', 0, Some e)) 0"

fun tstep ::
  "services \<Rightarrow> globals \<Rightarrow> File \<Rightarrow> pc \<Rightarrow> world \<Rightarrow> token list
     \<Rightarrow> pc outcome \<times> world \<times> token list" where
  "tstep sv g file AtDownload w out =
     (let w1 = emit (CallDownload (file_Id file)) w in
      case download sv (file_Id file) of
        Inl e \<Rightarrow> (Fatal (''Error downloading file: '' @ e), w1, out)
      | Inr (statusCode, body) \<Rightarrow>
          if statusCode \<noteq> 200
          then (Ret (failedWith file (''Error: HTTP status code '' @ itoa statusCode)), w1, out)
          else
            (case body of
               Inl e \<Rightarrow> (Ret (failedWith file (''Unable to read response body: '' @ e)), w1, out)
             | Inr fileBytes \<Rightarrow> (Ret (AtStatFolder fileBytes), w1, out)))"
| "tstep sv g file (AtStatFolder fileBytes) w out =
     (if os_Stat sv w (localFolderName g) = StatNotExist
      then (Ret (AtMkdirAll fileBytes), w, out)
      else (Ret (AtStatFile fileBytes), w, out))"
| "tstep sv g file (AtMkdirAll fileBytes) w out =
     (case os_MkdirAll sv w (localFolderName g) of
        (Some e, w1) \<Rightarrow> (Ret (failedWith file (''Unable to create local folder: '' @ e)), w1, out)
      | (None, w1) \<Rightarrow> (Ret (AtStatFile fileBytes), w1, out))"
| "tstep sv g file (AtStatFile fileBytes) w out =
     (case os_Stat sv w (localPath sv g file) of
        StatNotExist \<Rightarrow> (Ret (AtWriteFile fileBytes), w, out)
      | StatErr e \<Rightarrow> (Ret (failedWith file (''error checking if file exists: '' @ e)), w, out)
      | StatOK \<Rightarrow> (Ret (AtUpload fileBytes), w, out))"
| "tstep sv g file (AtWriteFile fileBytes) w out =
     (case os_WriteFile sv w (localPath sv g file) fileBytes of
        (Some e, w1) \<Rightarrow> (Ret (failedWith file (''unable to write file: '' @ e)), w1, out)
      | (None, w1) \<Rightarrow> (Ret (AtUpload fileBytes), w1, out))"
| "tstep sv g file (AtUpload fileBytes) w out =
     (case newClientErr sv of
        Some e \<Rightarrow> (Ret (AtDescribe fileBytes), w, out)
      | None \<Rightarrow>
          if \<not> alwaysUploadToGCS g
          then (Ret (AtAttrs fileBytes), w, out)
          else (Ret (AtObjectWrite fileBytes), w, out))"
| "tstep sv g file (AtAttrs fileBytes) w out =
     (let objectPath = filepath_Join sv (gcsFolderPath g) (file_Name file);
          w1 = emit (CallAttrs (gcsBucket g) objectPath) w in
      case object_Attrs sv w1 (gcsBucket g) objectPath of
        AttrsFound \<Rightarrow> (Ret (AtDescribe fileBytes), w1, out)
      | AttrsErr e \<Rightarrow> (Ret (AtDescribe fileBytes), w1, out)
      | AttrsNotExist \<Rightarrow> (Ret (AtObjectWrite fileBytes), w1, out))"
| "tstep sv g file (AtObjectWrite fileBytes) w out =
     (let objectPath = filepath_Join sv (gcsFolderPath g) (file_Name file) in
      (Ret (AtDescribe fileBytes),
       snd (object_write sv w (gcsBucket g) objectPath fileBytes), out))"
| "tstep sv g file (AtDescribe fileBytes) w out =
     (case describeBytes sv g w file fileBytes of
        (Fatal e, w1) \<Rightarrow> (Fatal e, w1, out)
      | (Ret res, w1) \<Rightarrow> (Ret (AtCsvWrite (csvRecord file res) 0), w1, out))"
| "tstep sv g file (AtCsvWrite r k) w out =
     (if k = 0 \<and> csvWriteErr sv r \<noteq> None then (Ret Finished, w, out)
      else if k < length r
      then (Ret (AtCsvWrite r (Suc k)), w,
            out @ (if 0 < k then [Comma] else []) @ [Field (r ! k)])
      else (Ret Finished, w, out @ [Newline]))"
| "tstep sv g file Finished w out = (Ret Finished, w, out)"

text \<open>
  The state of a run: the world, the pieces that have reached the CSV writer, the rows
  that are in the output file, and the goroutines with their positions.
\<close>

record conc =
  shared :: world
  written :: "token list"
  table :: "token list"
  procs :: "(File \<times> pc) list"

text \<open>
  A run either goes on, or the process has exited (\<open>log.Fatalf\<close>, \<open>panic\<close>), or
  \<open>main\<close> has returned.
\<close>

datatype run_result = Running conc | Exited err conc | Returned conc

definition cstep :: "services \<Rightarrow> globals \<Rightarrow> nat \<Rightarrow> conc \<Rightarrow> run_result" where
  "cstep sv g i c =
     (if i < length (procs c)
      then
        (case procs c ! i of
           (file, pc) \<Rightarrow>
             (case tstep sv g file pc (shared c) (written c) of
                (Fatal e, w1, out1) \<Rightarrow> Exited e (c \<lparr> shared := w1, written := out1 \<rparr>)
              | (Ret pc1, w1, out1) \<Rightarrow>
                  Running (c \<lparr> shared := w1, written := out1,
                              procs := (procs c)[i := (file, pc1)] \<rparr>)))
      else Running c)"

text \<open>A schedule names, step by step, the goroutine that runs.\<close>

fun crun :: "services \<Rightarrow> globals \<Rightarrow> nat list \<Rightarrow> conc \<Rightarrow> run_result" where
  "crun sv g [] c = Running c"
| "crun sv g (i # sched) c =
     (case cstep sv g i c of
        Running c1 \<Rightarrow> crun sv g sched c1
      | Exited e c1 \<Rightarrow> Exited e c1
      | Returned c1 \<Rightarrow> Returned c1)"

text \<open>The state in which the goroutines of the given files have just been started.\<close>

definition start :: "world \<Rightarrow> File list \<Rightarrow> conc" where
  "start w files =
     \<lparr> shared = w, written = [], table = [],
       procs = map (\<lambda>file. (file, AtDownload)) files \<rparr>"

definition allFinished :: "conc \<Rightarrow> bool" where
  "allFinished c = list_all (\<lambda>fp. snd fp = Finished) (procs c)"

text \<open>
  \<open>main\<close> from the listing on: it lists, creates the output file (which empties it),
  starts a goroutine for each of the first \<open>fileCount\<close> files and waits. When all
  goroutines have finished, the deferred \<open>Flush\<close> moves what is in the writer to the
  file; its error is never looked at. A process that exits runs no deferred call.
  The argument \<open>old\<close> is the content of the output file before the run, \<open>flushOk\<close>
  tells whether the flush succeeds. The writer's buffer is taken to be large enough for
  the run, so that nothing reaches the file before the flush.
\<close>

definition cmain ::
  "services \<Rightarrow> globals \<Rightarrow> world \<Rightarrow> token list \<Rightarrow> nat list \<Rightarrow> bool \<Rightarrow> run_result" where
  "cmain sv g w old sched flushOk =
     (case listFiles sv w (sourceFolderID g) (mimeTypes g) of
        (Fatal e, w1) \<Rightarrow> Exited e \<lparr> shared = w1, written = [], table = old, procs = [] \<rparr>
      | (Ret fileList, w1) \<Rightarrow>
          (case createErr sv of
             Some e \<Rightarrow>
               Exited (''failed to create CSV file: '' @ e)
                 \<lparr> shared = w1, written = [], table = old, procs = [] \<rparr>
           | None \<Rightarrow>
               (let fileCount = fileCountOf g fileList;
                    started = map (\<lambda>i. fileList ! i) [0..<fileCount];
                    c0 = start w1 started
                in case crun sv g sched c0 of
                     Running c1 \<Rightarrow>
                       if allFinished c1
                       then Returned (if flushOk
                                      then c1 \<lparr> written := [], table := table c1 @ written c1 \<rparr>
                                      else c1)
                       else Running c1
                   | Exited e c1 \<Rightarrow> Exited e c1
                   | Returned c1 \<Rightarrow> Returned c1)))"

fun stateOf :: "run_result \<Rightarrow> conc" where
  "stateOf (Running c) = c"
| "stateOf (Exited e c) = c"
| "stateOf (Returned c) = c"

fun exitMessage :: "run_result \<Rightarrow> err option" where
  "exitMessage (Running c) = None"
| "exitMessage (Exited e c) = Some e"
| "exitMessage (Returned c) = None"

text \<open>The bytes that a goroutine holds once the Downloader has returned them.\<close>

fun downloaded :: "pc \<Rightarrow> byte list option" where
  "downloaded (AtUpload bs) = Some bs"
| "downloaded (AtAttrs bs) = Some bs"
| "downloaded (AtObjectWrite bs) = Some bs"
| "downloaded (AtDescribe bs) = Some bs"
| "downloaded AtDownload = None"
| "downloaded (AtStatFolder bs) = None"
| "downloaded (AtMkdirAll bs) = None"
| "downloaded (AtStatFile bs) = None"
| "downloaded (AtWriteFile bs) = None"
| "downloaded (AtCsvWrite r k) = None"
| "downloaded Finished = None"




text \<open>A goroutine on its own: \<open>n\<close> steps of it, with no other goroutine in between.\<close>

fun solo ::
  "services \<Rightarrow> globals \<Rightarrow> File \<Rightarrow> nat \<Rightarrow> pc \<Rightarrow> world \<Rightarrow> token list
     \<Rightarrow> pc outcome \<times> world \<times> token list" where
  "solo sv g file 0 pc w out = (Ret pc, w, out)"
| "solo sv g file (Suc n) pc w out =
     (case tstep sv g file pc w out of
        (Fatal e, w1, out1) \<Rightarrow> (Fatal e, w1, out1)
      | (Ret pc1, w1, out1) \<Rightarrow> solo sv g file n pc1 w1 out1)"

text \<open>
  \<open>filepath.Clean\<close> and \<open>filepath.Join\<close> of the Go library on Unix, after their
  documentation: empty and \<open>.\<close> elements are dropped, a \<open>..\<close> element removes the
  element before it (at the start of a rooted path it is dropped, at the start of a
  relative path it stays), and the empty result is \<open>.\<close>. Elements are kept in reverse
  order while cleaning.
\<close>

fun cleanElems :: "bool \<Rightarrow> string list \<Rightarrow> string list \<Rightarrow> string list" where
  "cleanElems rooted acc [] = rev acc"
| "cleanElems rooted acc (e # es) =
     (if e = '''' \<or> e = ''.'' then cleanElems rooted acc es
      else if e = ''..''
      then (case acc of
              [] \<Rightarrow> if rooted then cleanElems rooted [] es else cleanElems rooted [''..''] es
            | a # as \<Rightarrow>
                if a = ''..'' then cleanElems rooted (''..'' # a # as) es
                else cleanElems rooted as es)
      else cleanElems rooted (e # acc) es)"

definition filepath_Clean :: "string \<Rightarrow> string" where
  "filepath_Clean path =
     (if path = '''' then ''.''
      else
        (let rooted = (hd path = CHR ''/'');
             elems = cleanElems rooted [] (strings_Split path CHR ''/'')
         in if elems = [] then (if rooted then ''/'' else ''.'')
            else (if rooted then ''/'' else '''') @ strings_Join elems ''/''))"

definition unix_Join :: "string \<Rightarrow> string \<Rightarrow> string" where
  "unix_Join a b =
     (let elems = filter (\<lambda>e. e \<noteq> '''') [a, b] in
      if elems = [] then '''' else filepath_Clean (strings_Join elems ''/''))"

section \<open>Concrete environments\<close>

text \<open>
  Small concrete inputs on which the properties below are evaluated: an environment in
  which every call succeeds, variations of it, a configuration, worlds and files.
\<close>

definition describe_tpl :: template where
  "describe_tpl n = Inr (''Describe '' @ n)"

definition sv_ok :: services where
  "sv_ok =
     \<lparr> filesList = (\<lambda>q. Inr []),
       download = (\<lambda>i. Inr (200, Inr [1, 2, 3, 4, 5])),
       statErr = (\<lambda>p. None),
       mkdirAllErr = (\<lambda>p. None),
       writeFileErr = (\<lambda>p. None),
       filepath_Join = (\<lambda>a b. a @ ''/'' @ b),
       newClientErr = None,
       attrsErr = (\<lambda>b p. None),
       objectWriteErr = (\<lambda>b p. None),
       objectCloseErr = (\<lambda>b p. None),
       parseFiles = (\<lambda>p. Inr describe_tpl),
       builtinTemplate = Inr describe_tpl,
       generateContent = (\<lambda>bs m p. Inr ''a red shoe''),
       createErr = None,
       csvWriteErr = (\<lambda>r. None) \<rparr>"

definition f_a :: File where
  "f_a = \<lparr> file_Id = ''id1'', file_Name = ''a.jpg'', file_MimeType = ''image/jpeg'' \<rparr>"

definition f_b :: File where
  "f_b = \<lparr> file_Id = ''id2'', file_Name = ''b.png'', file_MimeType = ''image/png'' \<rparr>"

definition g_run :: globals where
  "g_run =
     \<lparr> sourceFolderID = ''F'', localFolderName = ''local'', maxFiles = 0,
       gcsBucket = ''proj-media'', gcsFolderPath = ''imgs'', alwaysUploadToGCS = False,
       createDescription = True, customPromptLocation = '''',
       mimeTypes = [''image/jpeg'', ''image/png''],
       mimeTypesFlag = ''image/jpeg,image/png'' \<rparr>"

definition w_empty :: world where
  "w_empty = \<lparr> fs = Map.empty, gcs = Map.empty, csvRows = [], trace = [] \<rparr>"

text \<open>A world whose local folder already holds a one-byte file named \<open>a.jpg\<close>.\<close>

definition w_cached :: world where
  "w_cached =
     \<lparr> fs = [''local'' \<mapsto> Dir, ''local/a.jpg'' \<mapsto> Reg [9]],
       gcs = Map.empty, csvRows = [], trace = [] \<rparr>"

text \<open>
  The download of the first file is answered with status 206 (partial content) and no
  error, the others succeed.
\<close>

definition sv_status_206 :: services where
  "sv_status_206 =
     sv_ok \<lparr> download := (\<lambda>i. if i = ''id1'' then Inr (206, Inr []) else Inr (200, Inr [7, 8])) \<rparr>"

definition g_custom :: globals where
  "g_custom = g_run \<lparr> customPromptLocation := ''my.tpl'' \<rparr>"

definition g_skip :: globals where
  "g_skip = g_run \<lparr> createDescription := False \<rparr>"

text \<open>The storage client cannot be created.\<close>

definition sv_no_client :: services where
  "sv_no_client = sv_ok \<lparr> newClientErr := Some ''no credentials'' \<rparr>"

text \<open>The model call fails; the custom template does not parse.\<close>

definition sv_model_error :: services where
  "sv_model_error = sv_ok \<lparr> generateContent := (\<lambda>bs m p. Inl ''quota exceeded'') \<rparr>"

definition sv_bad_template :: services where
  "sv_bad_template = sv_ok \<lparr> parseFiles := (\<lambda>p. Inl ''unexpected EOF'') \<rparr>"

text \<open>A world whose bucket already holds a one-byte object for \<open>a.jpg\<close>.\<close>

definition w_mirrored :: world where
  "w_mirrored =
     \<lparr> fs = Map.empty, gcs = [(''proj-media'', ''imgs/a.jpg'') \<mapsto> [9]],
       csvRows = [], trace = [] \<rparr>"

text \<open>The existence probe fails with an error other than "not found".\<close>

definition sv_probe_error :: services where
  "sv_probe_error = sv_ok \<lparr> attrsErr := (\<lambda>b p. Some ''forbidden'') \<rparr>"

text \<open>A second file with the display name of the first, and a file whose name climbs out.\<close>

definition f_a2 :: File where
  "f_a2 = \<lparr> file_Id = ''id3'', file_Name = ''a.jpg'', file_MimeType = ''image/jpeg'' \<rparr>"

definition f_evil :: File where
  "f_evil = \<lparr> file_Id = ''id4'', file_Name = ''../evil.jpg'', file_MimeType = ''image/jpeg'' \<rparr>"

text \<open>The content of the file \<open>id3\<close> has two bytes, that of the others five.\<close>

definition sv_by_id :: services where
  "sv_by_id =
     sv_ok \<lparr> download := (\<lambda>i. if i = ''id3'' then Inr (200, Inr [7, 8])
                               else Inr (200, Inr [1, 2, 3, 4, 5])) \<rparr>"

text \<open>The download call of the first file returns an error, the others succeed.\<close>

definition sv_first_download_error :: services where
  "sv_first_download_error =
     sv_ok \<lparr> filesList := (\<lambda>q. Inr [Some f_a, Some f_b]),
             download := (\<lambda>i. if i = ''id1'' then Inl ''timeout'' else Inr (200, Inr [7, 8])) \<rparr>"

text \<open>Paths are joined as the Go library does on Unix.\<close>

definition sv_unix :: services where
  "sv_unix = sv_ok \<lparr> filepath_Join := unix_Join \<rparr>"

section \<open>Properties\<close>


lemma strings_Split_default:
  "strings_Split ''image/jpeg,image/png'' CHR '','' = [''image/jpeg'', ''image/png'']"
  by simp

lemma init_mimeTypes: "mimeTypes (init args) = [''image/jpeg'', ''image/png'']"
  by (simp add: init_def flag_Parse_def register_flags_def Let_def)

text \<open>
  C3. The allow-list given with the mime-types flag is meant to decide the content types
  of the query. In the code the list is split before the command line is parsed, so a
  supplied list never reaches the query: with \<open>-mime-types=image/webp\<close> and folder
  \<open>F\<close>, the query still asks for JPEG and PNG files.
\<close>

theorem C3_supplied_list_ignored:
  "buildQuery ''F''
     (mimeTypes (init \<lparr> arg_folder = Some ''F'', arg_local = None, arg_max = None,
        arg_gcs_bucket = None, arg_gcs_path = None, arg_always_upload = None,
        arg_describe = None, arg_prompt = None, arg_mime_types = Some ''image/webp'' \<rparr>))
   = [CHR 0x27] @ ''F'' @ [CHR 0x27] @ '' in parents and (mimeType = ''
     @ [CHR 0x27] @ ''image/jpeg'' @ [CHR 0x27] @ '' or mimeType = ''
     @ [CHR 0x27] @ ''image/png'' @ [CHR 0x27] @ '')''"
  by (simp add: init_mimeTypes buildQuery_def)


lemma itoa_0: "itoa 0 = ''0''"
  by (simp add: itoa_def digitsOf.simps digitChar_def)

lemma emit_fields:
  "fs (emit e w) = fs w" "gcs (emit e w) = gcs w" "csvRows (emit e w) = csvRows w"
  "trace (emit e w) = trace w @ [e]"
  by (simp_all add: emit_def)

lemma generateCalls_emit:
  "generateCalls (emit e w) =
     (case generateCallOf e of None \<Rightarrow> generateCalls w | Some n \<Rightarrow> generateCalls w @ [n])"
  by (simp add: generateCalls_def emit_def List.map_filter_def split: option.splits)

lemma generateCalls_updates:
  "generateCalls (w \<lparr> fs := a \<rparr>) = generateCalls w"
  "generateCalls (w \<lparr> gcs := b \<rparr>) = generateCalls w"
  "generateCalls (w \<lparr> csvRows := c \<rparr>) = generateCalls w"
  by (simp_all add: generateCalls_def)

lemmas fs_ops = os_Stat_def os_MkdirAll_def os_WriteFile_def

lemma getFileBytes_csvRows: "csvRows (snd (getFileBytes sv g w f)) = csvRows w"
  by (simp add: getFileBytes_def fs_ops emit_fields Let_def split: sum.splits option.splits prod.splits stat_result.splits)

lemma getFileBytes_generateCalls: "generateCalls (snd (getFileBytes sv g w f)) = generateCalls w"
  by (simp add: getFileBytes_def fs_ops generateCalls_emit generateCalls_updates Let_def split: sum.splits option.splits prod.splits stat_result.splits)

lemma uploadFileToGCS_frame:
  "csvRows (snd (uploadFileToGCS sv w b fp n bs ov)) = csvRows w \<and>
   fs (snd (uploadFileToGCS sv w b fp n bs ov)) = fs w \<and>
   generateCalls (snd (uploadFileToGCS sv w b fp n bs ov)) = generateCalls w"
  by (simp add: uploadFileToGCS_def object_write_def object_Attrs_def emit_fields Let_def generateCalls_emit generateCalls_updates
      split: option.splits attrs_result.splits)


lemma describe_download_failed:
  "getFileBytes sv g w f = (Ret (Inl e), w1) \<Longrightarrow> describe sv g w f = (Ret ('''', 0, Some e), w1)"
  by (simp add: describe_def)

lemma describe_download_fatal:
  "getFileBytes sv g w f = (Fatal e, w1) \<Longrightarrow> describe sv g w f = (Fatal e, w1)"
  by (simp add: describe_def)

lemma describe_skipped:
  assumes "getFileBytes sv g w f = (Ret (Inr bs), w1)" and "\<not> createDescription g"
  shows "describe sv g w f =
    (Ret (''Description skipped'', int (length bs), None),
     snd (uploadFileToGCS sv w1 (gcsBucket g) (gcsFolderPath g) (file_Name f) bs (alwaysUploadToGCS g)))"
  using assms by (simp add: describe_def split: prod.splits)

lemma describe_model_error:
  assumes "getFileBytes sv g w f = (Ret (Inr bs), w1)"
    and "uploadFileToGCS sv w1 (gcsBucket g) (gcsFolderPath g) (file_Name f) bs (alwaysUploadToGCS g) = (ue, w2)"
    and "createDescription g"
    and "(if customPromptLocation g \<noteq> '''' then parseFiles sv (customPromptLocation g) else builtinTemplate sv) = Inr tmpl"
    and "tmpl (file_Name f) = Inr prompt"
    and "generateContent sv bs (file_MimeType f) prompt = Inl e"
  shows "describe sv g w f = (Ret ('''', 0, None), emit (CallGenerateContent (file_Name f)) w2)"
  using assms by (simp add: describe_def Let_def split: if_splits)

lemma describe_bad_template:
  assumes "getFileBytes sv g w f = (Ret (Inr bs), w1)"
    and "uploadFileToGCS sv w1 (gcsBucket g) (gcsFolderPath g) (file_Name f) bs (alwaysUploadToGCS g) = (ue, w2)"
    and "createDescription g"
    and "customPromptLocation g \<noteq> ''''"
    and "parseFiles sv (customPromptLocation g) = Inl e"
  shows "describe sv g w f = (Ret ('''', 0, Some (''failed to parse custom template: '' @ e)), w2)"
  using assms by (simp add: describe_def Let_def)

lemma describe_enabled_csvRows:
  assumes "getFileBytes sv g w f = (Ret (Inr bs), w1)"
    and "uploadFileToGCS sv w1 (gcsBucket g) (gcsFolderPath g) (file_Name f) bs (alwaysUploadToGCS g) = (ue, w2)"
  shows "csvRows (snd (describe sv g w f)) = csvRows w2 \<and> fs (snd (describe sv g w f)) = fs w2"
  using assms
  by (simp add: describe_def emit_fields Let_def split: sum.splits outcome.splits)

lemma describe_csvRows: "csvRows (snd (describe sv g w f)) = csvRows w"
proof (cases "getFileBytes sv g w f")
  case (Pair r w1)
  have c1: "csvRows w1 = csvRows w" using getFileBytes_csvRows [of sv g w f] Pair by simp
  show ?thesis
  proof (cases r)
    case (Fatal e)
    then show ?thesis using Pair c1 by (simp add: describe_download_fatal)
  next
    case (Ret x)
    show ?thesis
    proof (cases x)
      case (Inl e)
      then show ?thesis using Pair Ret c1 by (simp add: describe_download_failed)
    next
      case (Inr bs)
      obtain ue w2 where u: "uploadFileToGCS sv w1 (gcsBucket g) (gcsFolderPath g) (file_Name f) bs (alwaysUploadToGCS g) = (ue, w2)"
        by (cases "uploadFileToGCS sv w1 (gcsBucket g) (gcsFolderPath g) (file_Name f) bs (alwaysUploadToGCS g)")
      have c2: "csvRows w2 = csvRows w1"
        using uploadFileToGCS_frame [of sv w1 "gcsBucket g" "gcsFolderPath g" "file_Name f" bs "alwaysUploadToGCS g"] u by simp
      have g: "getFileBytes sv g w f = (Ret (Inr bs), w1)" using Pair Ret Inr by simp
      show ?thesis using describe_enabled_csvRows [OF g u] c1 c2 by simp
    qed
  qed
qed

lemma describe_generateCalls_disabled:
  assumes "\<not> createDescription g"
  shows "generateCalls (snd (describe sv g w f)) = generateCalls w"
proof (cases "getFileBytes sv g w f")
  case (Pair r w1)
  have c1: "generateCalls w1 = generateCalls w" using getFileBytes_generateCalls [of sv g w f] Pair by simp
  show ?thesis
  proof (cases r)
    case (Fatal e)
    then show ?thesis using Pair c1 by (simp add: describe_download_fatal)
  next
    case (Ret x)
    show ?thesis
    proof (cases x)
      case (Inl e)
      then show ?thesis using Pair Ret c1 by (simp add: describe_download_failed)
    next
      case (Inr bs)
      have g: "getFileBytes sv g w f = (Ret (Inr bs), w1)" using Pair Ret Inr by simp
      show ?thesis using describe_skipped [OF g assms] c1
          uploadFileToGCS_frame [of sv w1 "gcsBucket g" "gcsFolderPath g" "file_Name f" bs "alwaysUploadToGCS g"]
        by simp
    qed
  qed
qed

lemma csv_Write_frame:
  "generateCalls (snd (csv_Write sv w r)) = generateCalls w \<and> fs (snd (csv_Write sv w r)) = fs w"
  by (simp add: csv_Write_def generateCalls_updates split: option.splits)

lemma task_unfold:
  "describe sv g w f = (Ret res, w1) \<Longrightarrow>
   task sv g w f = (Ret (), snd (csv_Write sv w1 (csvRecord f res)))"
  by (simp add: task_def)

lemma task_fatal:
  "describe sv g w f = (Fatal e, w1) \<Longrightarrow> task sv g w f = (Fatal e, w1)"
  by (simp add: task_def)

lemma task_generateCalls_disabled:
  assumes "\<not> createDescription g"
  shows "generateCalls (snd (task sv g w f)) = generateCalls w"
proof (cases "describe sv g w f")
  case (Pair r w1)
  have c: "generateCalls w1 = generateCalls w"
    using describe_generateCalls_disabled [OF assms, of sv w f] Pair by simp
  show ?thesis
  proof (cases r)
    case (Fatal e)
    then show ?thesis using Pair c by (simp add: task_fatal)
  next
    case (Ret res)
    then show ?thesis using Pair c by (simp add: task_unfold csv_Write_frame)
  qed
qed

lemma runTasks_generateCalls_disabled:
  assumes "\<not> createDescription g"
  shows "generateCalls (snd (runTasks sv g w files)) = generateCalls w"
proof (induction files arbitrary: w)
  case Nil
  show ?case by simp
next
  case (Cons f rest)
  show ?case
  proof (cases "task sv g w f")
    case (Pair r w1)
    have c: "generateCalls w1 = generateCalls w"
      using task_generateCalls_disabled [OF assms, of sv w f] Pair by simp
    show ?thesis
    proof (cases r)
      case (Fatal e)
      then show ?thesis using Pair c by simp
    next
      case (Ret u)
      then show ?thesis using Pair c Cons.IH [of w1] by simp
    qed
  qed
qed


lemma itoa_206: "itoa 206 = ''206''"
  by (simp add: itoa_def digitsOf.simps digitChar_def)

lemma getFileBytes_bad_response:
  assumes "download sv (file_Id file) = Inr (statusCode, body)"
    and "statusCode \<noteq> 200 \<or> body = Inl e"
  shows "getFileBytes sv g w file =
     (Ret (Inl (if statusCode \<noteq> 200 then ''Error: HTTP status code '' @ itoa statusCode
                else ''Unable to read response body: '' @ e)),
      emit (CallDownload (file_Id file)) w)"
  using assms by (auto simp add: getFileBytes_def Let_def)

lemma runTasks_continue:
  "fst (task sv g w f) = Ret () \<Longrightarrow>
   runTasks sv g w (f # rest) = runTasks sv g (snd (task sv g w f)) rest"
  by (cases "task sv g w f") simp

text \<open>
  The failures that \<open>getFileBytes\<close> returns as errors. When the download call returns
  a response whose status is not 200, or whose body cannot be read, \<open>describe\<close>
  returns an error after the download call alone, the task appends a record whose
  description is the error text, and the run goes on with the other tasks.
\<close>

lemma failed_response_is_scoped:
  assumes "download sv (file_Id file) = Inr (statusCode, body)"
    and "statusCode \<noteq> 200 \<or> body = Inl e"
    and "msg = (if statusCode \<noteq> 200 then ''Error: HTTP status code '' @ itoa statusCode
                else ''Unable to read response body: '' @ e)"
  shows "describe sv g w file = (Ret ('''', 0, Some msg), emit (CallDownload (file_Id file)) w)
    \<and> task sv g w file =
        (Ret (), snd (csv_Write sv (emit (CallDownload (file_Id file)) w)
           [file_Name file, ''0'', file_MimeType file, file_Id file, ''Error: '' @ msg]))
    \<and> runTasks sv g w (file # rest) = runTasks sv g (snd (task sv g w file)) rest"
proof -
  have d: "describe sv g w file = (Ret ('''', 0, Some msg), emit (CallDownload (file_Id file)) w)"
    using getFileBytes_bad_response [OF assms(1,2), of g w] assms(3)
    by (simp add: describe_download_failed)
  have t: "task sv g w file =
        (Ret (), snd (csv_Write sv (emit (CallDownload (file_Id file)) w)
           [file_Name file, ''0'', file_MimeType file, file_Id file, ''Error: '' @ msg]))"
    using task_unfold [OF d] by (simp add: csvRecord_def itoa_0)
  have "fst (task sv g w file) = Ret ()" using t by simp
  then show ?thesis using d t runTasks_continue by simp
qed

lemmas run_defs = task_def describe_def getFileBytes_def uploadFileToGCS_def object_write_def
  object_Attrs_def os_Stat_def os_MkdirAll_def os_WriteFile_def csv_Write_def csvRecord_def
  emit_def Let_def

text \<open>
  C5. When the model call fails, \<open>describe\<close> returns an empty description and no error,
  so the record carries an empty description; when the custom prompt template does not
  parse, \<open>describe\<close> returns the error and the record carries the error text. In both
  cases the task ends normally, the records written earlier stay as they are, and the
  run goes on with the other tasks.
\<close>

theorem C5_model_failure_silent_template_failure_reported:
  assumes "getFileBytes sv g w file = (Ret (Inr fileBytes), w1)"
    and "uploadFileToGCS sv w1 (gcsBucket g) (gcsFolderPath g) (file_Name file) fileBytes
           (alwaysUploadToGCS g) = (uploadErr, w2)"
    and "createDescription g"
  shows "((if customPromptLocation g \<noteq> '''' then parseFiles sv (customPromptLocation g)
           else builtinTemplate sv) = Inr tmpl
          \<and> tmpl (file_Name file) = Inr prompt
          \<and> generateContent sv fileBytes (file_MimeType file) prompt = Inl e
        \<longrightarrow> describe sv g w file = (Ret ('''', 0, None), emit (CallGenerateContent (file_Name file)) w2)
          \<and> csvRecord file ('''', 0, None) ! 4 = '''')
    \<and> (customPromptLocation g \<noteq> '''' \<and> parseFiles sv (customPromptLocation g) = Inl e
        \<longrightarrow> describe sv g w file = (Ret ('''', 0, Some (''failed to parse custom template: '' @ e)), w2)
          \<and> csvRecord file ('''', 0, Some (''failed to parse custom template: '' @ e)) ! 4
              = ''Error: failed to parse custom template: '' @ e)
    \<and> ((\<exists>res wd. describe sv g w file = (Ret res, wd))
        \<longrightarrow> fst (task sv g w file) = Ret ()
          \<and> take (length (csvRows w)) (csvRows (snd (task sv g w file))) = csvRows w
          \<and> runTasks sv g w (file # rest) = runTasks sv g (snd (task sv g w file)) rest)"
proof -
  have a: "(if customPromptLocation g \<noteq> '''' then parseFiles sv (customPromptLocation g)
           else builtinTemplate sv) = Inr tmpl
          \<and> tmpl (file_Name file) = Inr prompt
          \<and> generateContent sv fileBytes (file_MimeType file) prompt = Inl e
        \<longrightarrow> describe sv g w file = (Ret ('''', 0, None), emit (CallGenerateContent (file_Name file)) w2)
          \<and> csvRecord file ('''', 0, None) ! 4 = ''''"
    using describe_model_error [OF assms] by (simp add: csvRecord_def)
  have b: "customPromptLocation g \<noteq> '''' \<and> parseFiles sv (customPromptLocation g) = Inl e
        \<longrightarrow> describe sv g w file = (Ret ('''', 0, Some (''failed to parse custom template: '' @ e)), w2)
          \<and> csvRecord file ('''', 0, Some (''failed to parse custom template: '' @ e)) ! 4
              = ''Error: failed to parse custom template: '' @ e"
    using describe_bad_template [OF assms] by (simp add: csvRecord_def)
  have c: "(\<exists>res wd. describe sv g w file = (Ret res, wd))
        \<longrightarrow> fst (task sv g w file) = Ret ()
          \<and> take (length (csvRows w)) (csvRows (snd (task sv g w file))) = csvRows w
          \<and> runTasks sv g w (file # rest) = runTasks sv g (snd (task sv g w file)) rest"
  proof
    assume "\<exists>res wd. describe sv g w file = (Ret res, wd)"
    then obtain res wd where d: "describe sv g w file = (Ret res, wd)" by blast
    have r: "csvRows wd = csvRows w" using describe_csvRows [of sv g w "file"] d by simp
    have t: "task sv g w file = (Ret (), snd (csv_Write sv wd (csvRecord file res)))"
      using task_unfold [OF d] .
    have k: "take (length (csvRows w)) (csvRows (snd (task sv g w file))) = csvRows w"
      using t r by (simp add: csv_Write_def split: option.splits)
    have "fst (task sv g w file) = Ret ()" using t by simp
    then show "fst (task sv g w file) = Ret ()
          \<and> take (length (csvRows w)) (csvRows (snd (task sv g w file))) = csvRows w
          \<and> runTasks sv g w (file # rest) = runTasks sv g (snd (task sv g w file)) rest"
      using k runTasks_continue by simp
  qed
  show ?thesis using a b c by blast
qed


lemmas env_defs = sv_ok_def describe_tpl_def f_a_def f_b_def g_run_def w_empty_def w_cached_def

theorem C5_model_failure_silent_template_failure_reported_witness:
  "createDescription g_run
   \<and> generateContent sv_model_error [1, 2, 3, 4, 5] ''image/jpeg'' ''Describe a.jpg'' = Inl ''quota exceeded''
   \<and> fst (describe sv_model_error g_run w_empty f_a) = Ret ('''', 0, None)
   \<and> csvRows (snd (task sv_model_error g_run w_empty f_a))
       = [[''a.jpg'', ''0'', ''image/jpeg'', ''id1'', '''']]
   \<and> parseFiles sv_bad_template (customPromptLocation g_custom) = Inl ''unexpected EOF''
   \<and> fst (describe sv_bad_template g_custom w_empty f_a)
       = Ret ('''', 0, Some ''failed to parse custom template: unexpected EOF'')
   \<and> csvRows (snd (task sv_bad_template g_custom w_empty f_a))
       = [[''a.jpg'', ''0'', ''image/jpeg'', ''id1'',
           ''Error: failed to parse custom template: unexpected EOF'']]
   \<and> fst (task sv_bad_template g_custom w_empty f_a) = Ret ()"
proof -
  have m1: "getFileBytes sv_model_error g_run w_empty f_a
      = (Ret (Inr [1, 2, 3, 4, 5]), snd (getFileBytes sv_model_error g_run w_empty f_a))"
    by (simp add: run_defs sv_model_error_def env_defs)
  have m2: "uploadFileToGCS sv_model_error (snd (getFileBytes sv_model_error g_run w_empty f_a))
        (gcsBucket g_run) (gcsFolderPath g_run) (file_Name f_a) [1, 2, 3, 4, 5] (alwaysUploadToGCS g_run)
      = (None, snd (uploadFileToGCS sv_model_error (snd (getFileBytes sv_model_error g_run w_empty f_a))
        (gcsBucket g_run) (gcsFolderPath g_run) (file_Name f_a) [1, 2, 3, 4, 5] (alwaysUploadToGCS g_run)))"
    by (simp add: run_defs sv_model_error_def env_defs)
  have m3: "createDescription g_run" by (simp add: g_run_def)
  have t1: "getFileBytes sv_bad_template g_custom w_empty f_a
      = (Ret (Inr [1, 2, 3, 4, 5]), snd (getFileBytes sv_bad_template g_custom w_empty f_a))"
    by (simp add: run_defs sv_bad_template_def g_custom_def env_defs)
  have t2: "uploadFileToGCS sv_bad_template (snd (getFileBytes sv_bad_template g_custom w_empty f_a))
        (gcsBucket g_custom) (gcsFolderPath g_custom) (file_Name f_a) [1, 2, 3, 4, 5] (alwaysUploadToGCS g_custom)
      = (None, snd (uploadFileToGCS sv_bad_template (snd (getFileBytes sv_bad_template g_custom w_empty f_a))
        (gcsBucket g_custom) (gcsFolderPath g_custom) (file_Name f_a) [1, 2, 3, 4, 5] (alwaysUploadToGCS g_custom)))"
    by (simp add: run_defs sv_bad_template_def g_custom_def env_defs)
  have t3: "createDescription g_custom" by (simp add: g_custom_def g_run_def)
  show ?thesis
    using C5_model_failure_silent_template_failure_reported
            [OF m1 m2 m3, of describe_tpl "''Describe a.jpg''" "''quota exceeded''" "[]"]
          C5_model_failure_silent_template_failure_reported
            [OF t1 t2 t3, of describe_tpl "''Describe a.jpg''" "''unexpected EOF''" "[]"]
    by (simp add: run_defs sv_model_error_def sv_bad_template_def g_custom_def env_defs itoa_0)
qed

text \<open>
  C10. When the model call fails, \<open>describe\<close> returns size 0 with the empty description,
  whatever the length of the bytes that were downloaded and handed to the upload, and the
  record of the file reports the size \<open>0\<close>.
\<close>

theorem C10_model_failure_reports_size_zero:
  assumes "getFileBytes sv g w file = (Ret (Inr fileBytes), w1)"
    and "uploadFileToGCS sv w1 (gcsBucket g) (gcsFolderPath g) (file_Name file) fileBytes
           (alwaysUploadToGCS g) = (uploadErr, w2)"
    and "createDescription g"
    and "(if customPromptLocation g \<noteq> '''' then parseFiles sv (customPromptLocation g)
          else builtinTemplate sv) = Inr tmpl"
    and "tmpl (file_Name file) = Inr prompt"
    and "generateContent sv fileBytes (file_MimeType file) prompt = Inl e"
  shows "describe sv g w file = (Ret ('''', 0, None), emit (CallGenerateContent (file_Name file)) w2)
    \<and> task sv g w file =
        (Ret (), snd (csv_Write sv (emit (CallGenerateContent (file_Name file)) w2)
           [file_Name file, ''0'', file_MimeType file, file_Id file, '''']))"
proof -
  have d: "describe sv g w file = (Ret ('''', 0, None), emit (CallGenerateContent (file_Name file)) w2)"
    using describe_model_error [OF assms] .
  show ?thesis using d task_unfold [OF d] by (simp add: csvRecord_def itoa_0)
qed

theorem C10_model_failure_reports_size_zero_witness:
  "fst (getFileBytes sv_model_error g_run w_empty f_a) = Ret (Inr [1, 2, 3, 4, 5])
   \<and> length [1, 2, 3, 4, 5 :: byte] = 5
   \<and> generateContent sv_model_error [1, 2, 3, 4, 5] ''image/jpeg'' ''Describe a.jpg'' = Inl ''quota exceeded''
   \<and> fst (describe sv_model_error g_run w_empty f_a) = Ret ('''', 0, None)
   \<and> csvRows (snd (task sv_model_error g_run w_empty f_a))
       = [[''a.jpg'', ''0'', ''image/jpeg'', ''id1'', '''']]"
proof -
  have m1: "getFileBytes sv_model_error g_run w_empty f_a
      = (Ret (Inr [1, 2, 3, 4, 5]), snd (getFileBytes sv_model_error g_run w_empty f_a))"
    by (simp add: run_defs sv_model_error_def env_defs)
  have m2: "uploadFileToGCS sv_model_error (snd (getFileBytes sv_model_error g_run w_empty f_a))
        (gcsBucket g_run) (gcsFolderPath g_run) (file_Name f_a) [1, 2, 3, 4, 5] (alwaysUploadToGCS g_run)
      = (None, snd (uploadFileToGCS sv_model_error (snd (getFileBytes sv_model_error g_run w_empty f_a))
        (gcsBucket g_run) (gcsFolderPath g_run) (file_Name f_a) [1, 2, 3, 4, 5] (alwaysUploadToGCS g_run)))"
    by (simp add: run_defs sv_model_error_def env_defs)
  have m3: "createDescription g_run" by (simp add: g_run_def)
  have m4: "(if customPromptLocation g_run \<noteq> '''' then parseFiles sv_model_error (customPromptLocation g_run)
          else builtinTemplate sv_model_error) = Inr describe_tpl"
    by (simp add: sv_model_error_def env_defs)
  have m5: "describe_tpl (file_Name f_a) = Inr ''Describe a.jpg''"
    by (simp add: env_defs)
  have m6: "generateContent sv_model_error [1, 2, 3, 4, 5] (file_MimeType f_a) ''Describe a.jpg''
      = Inl ''quota exceeded''"
    by (simp add: sv_model_error_def env_defs)
  show ?thesis
    using m1 m6 C10_model_failure_reports_size_zero [OF m1 m2 m3 m4 m5 m6]
    by (simp add: csv_Write_def emit_def uploadFileToGCS_def object_write_def object_Attrs_def
        Let_def sv_model_error_def env_defs getFileBytes_def fs_ops)
qed


lemma object_Attrs_emit: "object_Attrs sv (emit e w) b p = object_Attrs sv w b p"
  by (simp add: object_Attrs_def emit_fields split: option.splits)

text \<open>
  C6 (as amended). Once the storage client exists: with the override flag false, a probe
  that finds the object ends the call with success and without any write; a probe that
  reports the object missing is followed by the write; any other probe error is
  returned as a failure. With the override flag true no probe is made and the write is
  always attempted. A write that does not fail, followed by a close that does not fail,
  leaves the given bytes at the object path, replacing what was there.
\<close>

theorem C6_upload_probe_and_override:
  assumes "newClientErr sv = None"
    and "p = filepath_Join sv folderPath objectName"
  shows "(\<not> ov \<and> object_Attrs sv w b p = AttrsFound
            \<longrightarrow> uploadFileToGCS sv w b folderPath objectName bs ov = (None, emit (CallAttrs b p) w))
    \<and> (\<not> ov \<and> object_Attrs sv w b p = AttrsNotExist
            \<longrightarrow> uploadFileToGCS sv w b folderPath objectName bs ov
                = object_write sv (emit (CallAttrs b p) w) b p bs)
    \<and> (\<not> ov \<and> object_Attrs sv w b p = AttrsErr e
            \<longrightarrow> uploadFileToGCS sv w b folderPath objectName bs ov
                = (Some (''failed to check object existence: '' @ e), emit (CallAttrs b p) w))
    \<and> (ov \<longrightarrow> uploadFileToGCS sv w b folderPath objectName bs ov = object_write sv w b p bs)
    \<and> trace (snd (object_write sv w b p bs)) = trace w @ [CallObjectWrite b p]
    \<and> (objectWriteErr sv b p = None \<and> objectCloseErr sv b p = None
            \<longrightarrow> fst (object_write sv w b p bs) = None
              \<and> gcs (snd (object_write sv w b p bs)) (b, p) = Some bs)"
  using assms
  by (simp add: uploadFileToGCS_def object_Attrs_emit object_write_def emit_fields Let_def
      split: option.splits)


theorem C6_upload_probe_and_override_witness:
  "uploadFileToGCS sv_ok w_mirrored ''proj-media'' ''imgs'' ''a.jpg'' [1, 2, 3] False
     = (None, emit (CallAttrs ''proj-media'' ''imgs/a.jpg'') w_mirrored)
   \<and> gcs (snd (uploadFileToGCS sv_ok w_empty ''proj-media'' ''imgs'' ''a.jpg'' [1, 2, 3] False))
        (''proj-media'', ''imgs/a.jpg'') = Some [1, 2, 3]
   \<and> trace (snd (uploadFileToGCS sv_ok w_empty ''proj-media'' ''imgs'' ''a.jpg'' [1, 2, 3] False))
        = [CallAttrs ''proj-media'' ''imgs/a.jpg'', CallObjectWrite ''proj-media'' ''imgs/a.jpg'']
   \<and> uploadFileToGCS sv_probe_error w_empty ''proj-media'' ''imgs'' ''a.jpg'' [1, 2, 3] False
     = (Some ''failed to check object existence: forbidden'',
        emit (CallAttrs ''proj-media'' ''imgs/a.jpg'') w_empty)
   \<and> gcs (snd (uploadFileToGCS sv_ok w_mirrored ''proj-media'' ''imgs'' ''a.jpg'' [1, 2, 3] True))
        (''proj-media'', ''imgs/a.jpg'') = Some [1, 2, 3]
   \<and> trace (snd (uploadFileToGCS sv_ok w_mirrored ''proj-media'' ''imgs'' ''a.jpg'' [1, 2, 3] True))
        = [CallObjectWrite ''proj-media'' ''imgs/a.jpg'']"
proof -
  have c: "newClientErr sv_ok = None" "newClientErr sv_probe_error = None"
    by (simp_all add: sv_ok_def sv_probe_error_def)
  have p: "''imgs/a.jpg'' = filepath_Join sv_ok ''imgs'' ''a.jpg''"
    "''imgs/a.jpg'' = filepath_Join sv_probe_error ''imgs'' ''a.jpg''"
    by (simp_all add: sv_ok_def sv_probe_error_def)
  show ?thesis
    using C6_upload_probe_and_override [OF c(1) p(1), of False w_mirrored "''proj-media''" "[1, 2, 3]" "[]"]
      C6_upload_probe_and_override [OF c(1) p(1), of False w_empty "''proj-media''" "[1, 2, 3]" "[]"]
      C6_upload_probe_and_override [OF c(2) p(2), of False w_empty "''proj-media''" "[1, 2, 3]" "''forbidden''"]
      C6_upload_probe_and_override [OF c(1) p(1), of True w_mirrored "''proj-media''" "[1, 2, 3]" "[]"]
    by (simp add: object_Attrs_def object_write_def emit_def Let_def sv_ok_def sv_probe_error_def
        w_mirrored_def w_empty_def)
qed

text \<open>
  C6 as stated fails when the storage client cannot be created: with the override flag
  true the call returns a failure before any write, and the existing object stays.
\<close>

theorem C6_counterexample:
  "uploadFileToGCS sv_no_client w_mirrored ''proj-media'' ''imgs'' ''a.jpg'' [1, 2, 3] True
     = (Some ''failed to create client: no credentials'', w_mirrored)
   \<and> trace w_mirrored = []
   \<and> gcs w_mirrored (''proj-media'', ''imgs/a.jpg'') = Some [9]"
  by (simp add: uploadFileToGCS_def sv_no_client_def sv_ok_def w_mirrored_def)

text \<open>
  C7. When the local folder exists and the existence check finds an entry under the
  file's display name, a successful download returns exactly the bytes just fetched,
  and the only effect of the call is the download itself: nothing is written, and the
  local file system is as before.
\<close>

theorem C7_cache_hit_returns_fresh_bytes:
  assumes "download sv (file_Id file) = Inr (200, Inr fileBytes)"
    and "fs w (localFolderName g) = Some Dir"
    and "fs w (filepath_Join sv (localFolderName g) (file_Name file)) = Some (Reg old)"
    and "statErr sv (filepath_Join sv (localFolderName g) (file_Name file)) = None"
  shows "getFileBytes sv g w file = (Ret (Inr fileBytes), emit (CallDownload (file_Id file)) w)
    \<and> fs (snd (getFileBytes sv g w file)) = fs w
    \<and> trace (snd (getFileBytes sv g w file)) = trace w @ [CallDownload (file_Id file)]"
  using assms
  by (simp add: getFileBytes_def os_Stat_def emit_fields Let_def split: option.splits)

theorem C7_cache_hit_returns_fresh_bytes_witness:
  "getFileBytes sv_ok g_run w_cached f_a
     = (Ret (Inr [1, 2, 3, 4, 5]), emit (CallDownload ''id1'') w_cached)
   \<and> fs (snd (getFileBytes sv_ok g_run w_cached f_a)) ''local/a.jpg'' = Some (Reg [9])
   \<and> trace (snd (getFileBytes sv_ok g_run w_cached f_a)) = [CallDownload ''id1'']"
proof -
  have h1: "download sv_ok (file_Id f_a) = Inr (200, Inr [1, 2, 3, 4, 5])"
    by (simp add: env_defs)
  have h2: "fs w_cached (localFolderName g_run) = Some Dir"
    by (simp add: env_defs)
  have h3: "fs w_cached (filepath_Join sv_ok (localFolderName g_run) (file_Name f_a)) = Some (Reg [9])"
    by (simp add: env_defs)
  have h4: "statErr sv_ok (filepath_Join sv_ok (localFolderName g_run) (file_Name f_a)) = None"
    by (simp add: env_defs)
  show ?thesis
    using C7_cache_hit_returns_fresh_bytes [OF h1 h2 h3 h4]
    by (simp add: env_defs emit_def)
qed


text \<open>
  C8 (as amended). With description generation disabled, for a file whose bytes the
  Downloader returned, \<open>describe\<close> returns the placeholder immediately after the upload:
  its world is the one the upload left, no template is resolved and no model call is
  made; the record of the file carries the placeholder. And no model call is made for
  any file, whether its download succeeded or not.
\<close>

theorem C8_disabled_describer_returns_placeholder:
  assumes "\<not> createDescription g"
  shows "(getFileBytes sv g w file = (Ret (Inr fileBytes), w1)
            \<longrightarrow> describe sv g w file
                = (Ret (''Description skipped'', int (length fileBytes), None),
                   snd (uploadFileToGCS sv w1 (gcsBucket g) (gcsFolderPath g) (file_Name file)
                          fileBytes (alwaysUploadToGCS g)))
              \<and> task sv g w file
                = (Ret (),
                   snd (csv_Write sv
                     (snd (uploadFileToGCS sv w1 (gcsBucket g) (gcsFolderPath g) (file_Name file)
                          fileBytes (alwaysUploadToGCS g)))
                     [file_Name file, itoa (int (length fileBytes)), file_MimeType file,
                      file_Id file, ''Description skipped''])))
    \<and> generateCalls (snd (describe sv g w file)) = generateCalls w
    \<and> generateCalls (snd (task sv g w file)) = generateCalls w"
proof -
  have a: "getFileBytes sv g w file = (Ret (Inr fileBytes), w1)
            \<longrightarrow> describe sv g w file
                = (Ret (''Description skipped'', int (length fileBytes), None),
                   snd (uploadFileToGCS sv w1 (gcsBucket g) (gcsFolderPath g) (file_Name file)
                          fileBytes (alwaysUploadToGCS g)))
              \<and> task sv g w file
                = (Ret (),
                   snd (csv_Write sv
                     (snd (uploadFileToGCS sv w1 (gcsBucket g) (gcsFolderPath g) (file_Name file)
                          fileBytes (alwaysUploadToGCS g)))
                     [file_Name file, itoa (int (length fileBytes)), file_MimeType file,
                      file_Id file, ''Description skipped'']))"
  proof
    assume h: "getFileBytes sv g w file = (Ret (Inr fileBytes), w1)"
    have d: "describe sv g w file
                = (Ret (''Description skipped'', int (length fileBytes), None),
                   snd (uploadFileToGCS sv w1 (gcsBucket g) (gcsFolderPath g) (file_Name file)
                          fileBytes (alwaysUploadToGCS g)))"
      using describe_skipped [OF h assms] .
    show "describe sv g w file
                = (Ret (''Description skipped'', int (length fileBytes), None),
                   snd (uploadFileToGCS sv w1 (gcsBucket g) (gcsFolderPath g) (file_Name file)
                          fileBytes (alwaysUploadToGCS g)))
              \<and> task sv g w file
                = (Ret (),
                   snd (csv_Write sv
                     (snd (uploadFileToGCS sv w1 (gcsBucket g) (gcsFolderPath g) (file_Name file)
                          fileBytes (alwaysUploadToGCS g)))
                     [file_Name file, itoa (int (length fileBytes)), file_MimeType file,
                      file_Id file, ''Description skipped'']))"
      using d task_unfold [OF d] by (simp add: csvRecord_def)
  qed
  show ?thesis
    using a describe_generateCalls_disabled [OF assms] task_generateCalls_disabled [OF assms]
    by simp
qed

lemma itoa_5: "itoa 5 = ''5''"
  by (simp add: itoa_def digitsOf.simps digitChar_def)

theorem C8_disabled_describer_returns_placeholder_witness:
  "\<not> createDescription g_skip
   \<and> fst (getFileBytes sv_ok g_skip w_empty f_a) = Ret (Inr [1, 2, 3, 4, 5])
   \<and> fst (describe sv_ok g_skip w_empty f_a) = Ret (''Description skipped'', 5, None)
   \<and> csvRows (snd (task sv_ok g_skip w_empty f_a))
       = [[''a.jpg'', ''5'', ''image/jpeg'', ''id1'', ''Description skipped'']]
   \<and> generateCalls (snd (task sv_ok g_skip w_empty f_a)) = []"
proof -
  have h: "\<not> createDescription g_skip" by (simp add: g_skip_def)
  have f1: "fst (getFileBytes sv_ok g_skip w_empty f_a) = Ret (Inr [1, 2, 3, 4, 5])"
    by (simp add: run_defs g_skip_def env_defs)
  have m1: "getFileBytes sv_ok g_skip w_empty f_a
      = (Ret (Inr [1, 2, 3, 4, 5]), snd (getFileBytes sv_ok g_skip w_empty f_a))"
    using f1 by (simp add: prod_eq_iff)
  have e: "generateCalls w_empty = []"
    by (simp add: generateCalls_def w_empty_def List.map_filter_def)
  note t = C8_disabled_describer_returns_placeholder
        [OF h, of sv_ok w_empty f_a "[1, 2, 3, 4, 5]" "snd (getFileBytes sv_ok g_skip w_empty f_a)"]
  have d: "describe sv_ok g_skip w_empty f_a
      = (Ret (''Description skipped'', int (length [1, 2, 3, 4, 5 :: byte]), None),
         snd (uploadFileToGCS sv_ok (snd (getFileBytes sv_ok g_skip w_empty f_a)) (gcsBucket g_skip)
                (gcsFolderPath g_skip) (file_Name f_a) [1, 2, 3, 4, 5] (alwaysUploadToGCS g_skip)))"
    using t m1 by blast
  have k: "task sv_ok g_skip w_empty f_a
      = (Ret (),
         snd (csv_Write sv_ok
           (snd (uploadFileToGCS sv_ok (snd (getFileBytes sv_ok g_skip w_empty f_a)) (gcsBucket g_skip)
                (gcsFolderPath g_skip) (file_Name f_a) [1, 2, 3, 4, 5] (alwaysUploadToGCS g_skip)))
           [file_Name f_a, itoa (int (length [1, 2, 3, 4, 5 :: byte])), file_MimeType f_a,
            file_Id f_a, ''Description skipped'']))"
    using t m1 by blast
  have r: "generateCalls (snd (task sv_ok g_skip w_empty f_a)) = []"
    using t e by simp
  have c: "csvRows (snd (uploadFileToGCS sv_ok (snd (getFileBytes sv_ok g_skip w_empty f_a)) (gcsBucket g_skip)
                (gcsFolderPath g_skip) (file_Name f_a) [1, 2, 3, 4, 5] (alwaysUploadToGCS g_skip))) = []"
    by (simp add: uploadFileToGCS_frame getFileBytes_csvRows w_empty_def)
  have rows: "csvRows (snd (task sv_ok g_skip w_empty f_a))
       = [[''a.jpg'', ''5'', ''image/jpeg'', ''id1'', ''Description skipped'']]"
    using k c by (simp add: csv_Write_def itoa_5 sv_ok_def f_a_def)
  show ?thesis using h f1 d r rows by simp
qed

text \<open>
  C8 as stated fails for a file whose download is answered with a status other than 200
  and no error (here 206): with description generation disabled its record carries an
  error text, not the placeholder.
\<close>

theorem C8_counterexample:
  "\<not> createDescription g_skip
   \<and> download sv_status_206 (file_Id f_a) = Inr (206, Inr [])
   \<and> csvRows (snd (task sv_status_206 g_skip w_empty f_a))
       = [[''a.jpg'', ''0'', ''image/jpeg'', ''id1'', ''Error: Error: HTTP status code 206'']]"
  by (simp add: run_defs sv_status_206_def g_skip_def env_defs itoa_0 itoa_206)

lemma getFileBytes_fs_keeps:
  "fs w p = Some n \<Longrightarrow> fs (snd (getFileBytes sv g w f)) p = Some n"
  by (auto simp add: getFileBytes_def fs_ops emit_fields Let_def
      split: sum.splits option.splits prod.splits stat_result.splits)

lemma getFileBytes_entry:
  assumes "getFileBytes sv g w file = (Ret (Inr fileBytes), w')"
  shows "fs w' (filepath_Join sv (localFolderName g) (file_Name file)) \<noteq> None"
  using assms
  by (auto simp add: getFileBytes_def fs_ops emit_fields Let_def
      split: sum.splits option.splits prod.splits stat_result.splits if_splits)

lemma getFileBytes_fresh:
  assumes "getFileBytes sv g w file = (Ret (Inr fileBytes), w')"
    and "fs w (filepath_Join sv (localFolderName g) (file_Name file)) = None"
    and "filepath_Join sv (localFolderName g) (file_Name file) \<noteq> localFolderName g"
  shows "fs w' (filepath_Join sv (localFolderName g) (file_Name file)) = Some (Reg fileBytes)"
  using assms
  by (auto simp add: getFileBytes_def fs_ops emit_fields Let_def
      split: sum.splits option.splits prod.splits stat_result.splits if_splits)





lemma solo_Finished: "solo sv g file n Finished w out = (Ret Finished, w, out)"
  by (induction n) simp_all

lemma fuel6: "6 \<le> n \<Longrightarrow> \<exists>m. n = Suc (Suc (Suc (Suc (Suc (Suc m)))))"
  by presburger

lemma fuel1: "k + 1 \<le> n \<Longrightarrow> \<exists>m. n = Suc m \<and> k \<le> m"
  by presburger

lemma solo_csv_write:
  assumes "6 \<le> n"
  shows "solo sv g file n (AtCsvWrite [a, b, c, d, e] 0) w out =
     (Ret Finished, w,
      if csvWriteErr sv [a, b, c, d, e] = None then out @ recordTokens [a, b, c, d, e] else out)"
proof -
  obtain m where "n = Suc (Suc (Suc (Suc (Suc (Suc m)))))"
    using fuel6 [OF assms] by blast
  then show ?thesis by (simp add: solo_Finished)
qed

lemma solo_record:
  assumes "6 \<le> n"
  shows "solo sv g file n (AtCsvWrite (csvRecord file res) 0) w out =
     (Ret Finished, w,
      if csvWriteErr sv (csvRecord file res) = None
      then out @ recordTokens (csvRecord file res) else out)"
proof (cases res)
  case (fields d s e)
  show ?thesis
    using solo_csv_write [OF assms, of sv g "file" "file_Name file" "itoa s" "file_MimeType file" "file_Id file"
        "case e of Some msg \<Rightarrow> ''Error: '' @ msg | None \<Rightarrow> d" w out] fields
    by (simp add: csvRecord_def)
qed

lemma solo_failedWith:
  assumes "6 \<le> n"
  shows "solo sv g file n (failedWith file e) w out =
     (Ret Finished, w,
      if csvWriteErr sv (csvRecord file ('''', 0, Some e)) = None
      then out @ recordTokens (csvRecord file ('''', 0, Some e)) else out)"
  using solo_record [OF assms] by (simp add: failedWith_def)

lemma solo_describe:
  assumes "7 \<le> n"
  shows "solo sv g file n (AtDescribe bs) w out =
     (case describeBytes sv g w file bs of
        (Fatal e, w1) \<Rightarrow> (Fatal e, w1, out)
      | (Ret res, w1) \<Rightarrow>
          (Ret Finished, w1,
           if csvWriteErr sv (csvRecord file res) = None
           then out @ recordTokens (csvRecord file res) else out))"
proof -
  obtain m where m: "n = Suc m" "6 \<le> m" using fuel1 [of 6 n] assms by auto
  show ?thesis
    by (simp add: m solo_record [OF m(2)] split: prod.splits outcome.splits)
qed

lemma solo_AtUpload:
  "solo sv g file (Suc n) (AtUpload bs) w out =
     (case newClientErr sv of
        Some e \<Rightarrow> solo sv g file n (AtDescribe bs) w out
      | None \<Rightarrow>
          if \<not> alwaysUploadToGCS g then solo sv g file n (AtAttrs bs) w out
          else solo sv g file n (AtObjectWrite bs) w out)"
  by (simp split: option.splits)

lemma solo_AtAttrs:
  "solo sv g file (Suc n) (AtAttrs bs) w out =
     (case object_Attrs sv (emit (CallAttrs (gcsBucket g) (filepath_Join sv (gcsFolderPath g) (file_Name file))) w)
             (gcsBucket g) (filepath_Join sv (gcsFolderPath g) (file_Name file)) of
        AttrsNotExist \<Rightarrow>
          solo sv g file n (AtObjectWrite bs)
            (emit (CallAttrs (gcsBucket g) (filepath_Join sv (gcsFolderPath g) (file_Name file))) w) out
      | _ \<Rightarrow>
          solo sv g file n (AtDescribe bs)
            (emit (CallAttrs (gcsBucket g) (filepath_Join sv (gcsFolderPath g) (file_Name file))) w) out)"
  by (simp add: Let_def split: attrs_result.splits)

lemma solo_AtObjectWrite:
  "solo sv g file (Suc n) (AtObjectWrite bs) w out =
     solo sv g file n (AtDescribe bs)
       (snd (object_write sv w (gcsBucket g) (filepath_Join sv (gcsFolderPath g) (file_Name file)) bs)) out"
  by (simp add: Let_def)

lemma solo_upload:
  assumes "10 \<le> n"
  shows "solo sv g file n (AtUpload bs) w out =
     (case describeBytes sv g
             (snd (uploadFileToGCS sv w (gcsBucket g) (gcsFolderPath g) (file_Name file) bs
                     (alwaysUploadToGCS g))) file bs of
        (Fatal e, w1) \<Rightarrow> (Fatal e, w1, out)
      | (Ret res, w1) \<Rightarrow>
          (Ret Finished, w1,
           if csvWriteErr sv (csvRecord file res) = None
           then out @ recordTokens (csvRecord file res) else out))"
proof -
  have "\<exists>m. n = Suc (Suc (Suc m)) \<and> 7 \<le> m" using assms by presburger
  then obtain m where m: "n = Suc (Suc (Suc m))" "7 \<le> m" by blast
  have d0: "7 \<le> m" "7 \<le> Suc m" "7 \<le> Suc (Suc m)" using m(2) by simp_all
  show ?thesis
    by (simp add: m(1) solo_AtUpload solo_AtAttrs solo_AtObjectWrite
        solo_describe [OF d0(1)] solo_describe [OF d0(2)] solo_describe [OF d0(3)]
        uploadFileToGCS_def Let_def del: solo.simps
        split: option.splits attrs_result.splits)
qed

lemma solo_AtDownload:
  "solo sv g file (Suc n) AtDownload w out =
     (case download sv (file_Id file) of
        Inl e \<Rightarrow> (Fatal (''Error downloading file: '' @ e), emit (CallDownload (file_Id file)) w, out)
      | Inr (statusCode, body) \<Rightarrow>
          if statusCode \<noteq> 200
          then solo sv g file n (failedWith file (''Error: HTTP status code '' @ itoa statusCode))
                 (emit (CallDownload (file_Id file)) w) out
          else
            (case body of
               Inl e \<Rightarrow> solo sv g file n (failedWith file (''Unable to read response body: '' @ e))
                          (emit (CallDownload (file_Id file)) w) out
             | Inr fileBytes \<Rightarrow> solo sv g file n (AtStatFolder fileBytes)
                          (emit (CallDownload (file_Id file)) w) out))"
  by (simp add: Let_def split: sum.splits prod.splits)

lemma solo_AtStatFolder:
  "solo sv g file (Suc n) (AtStatFolder bs) w out =
     (if os_Stat sv w (localFolderName g) = StatNotExist
      then solo sv g file n (AtMkdirAll bs) w out
      else solo sv g file n (AtStatFile bs) w out)"
  by simp

lemma solo_AtMkdirAll:
  "solo sv g file (Suc n) (AtMkdirAll bs) w out =
     (case os_MkdirAll sv w (localFolderName g) of
        (Some e, w1) \<Rightarrow> solo sv g file n (failedWith file (''Unable to create local folder: '' @ e)) w1 out
      | (None, w1) \<Rightarrow> solo sv g file n (AtStatFile bs) w1 out)"
  by (simp split: prod.splits option.splits)

lemma solo_AtStatFile:
  "solo sv g file (Suc n) (AtStatFile bs) w out =
     (case os_Stat sv w (localPath sv g file) of
        StatNotExist \<Rightarrow> solo sv g file n (AtWriteFile bs) w out
      | StatErr e \<Rightarrow> solo sv g file n (failedWith file (''error checking if file exists: '' @ e)) w out
      | StatOK \<Rightarrow> solo sv g file n (AtUpload bs) w out)"
  by (simp split: stat_result.splits)

lemma solo_AtWriteFile:
  "solo sv g file (Suc n) (AtWriteFile bs) w out =
     (case os_WriteFile sv w (localPath sv g file) bs of
        (Some e, w1) \<Rightarrow> solo sv g file n (failedWith file (''unable to write file: '' @ e)) w1 out
      | (None, w1) \<Rightarrow> solo sv g file n (AtUpload bs) w1 out)"
  by (simp split: prod.splits option.splits)

text \<open>The result of describe, followed by the write of the record, as solo presents it.\<close>

lemma describe_by_phases:
  "describe sv g w file =
     (case getFileBytes sv g w file of
        (Fatal e, w1) \<Rightarrow> (Fatal e, w1)
      | (Ret (Inl e), w1) \<Rightarrow> (Ret ('''', 0, Some e), w1)
      | (Ret (Inr bs), w1) \<Rightarrow>
          describeBytes sv g
            (snd (uploadFileToGCS sv w1 (gcsBucket g) (gcsFolderPath g) (file_Name file) bs
                    (alwaysUploadToGCS g))) file bs)"
  by (simp add: describe_def describeBytes_def Let_def
      split: prod.splits outcome.splits sum.splits)


text \<open>
  A goroutine that runs alone, from its start and for at least fifteen steps, ends as
  the task of its file does: with the same exit or the same world, and with the pieces
  of the record of \<open>describe\<close>'s result handed to the writer.
\<close>

lemma solo_is_task:
  assumes "15 \<le> n"
  shows "solo sv g file n AtDownload w out =
     (case describe sv g w file of
        (Fatal e, w1) \<Rightarrow> (Fatal e, w1, out)
      | (Ret res, w1) \<Rightarrow>
          (Ret Finished, w1,
           if csvWriteErr sv (csvRecord file res) = None
           then out @ recordTokens (csvRecord file res) else out))"
proof -
  have "\<exists>m. n = Suc (Suc (Suc (Suc (Suc m)))) \<and> 10 \<le> m" using assms by presburger
  then obtain m where m: "n = Suc (Suc (Suc (Suc (Suc m))))" "10 \<le> m" by blast
  have f: "6 \<le> m" "6 \<le> Suc m" "6 \<le> Suc (Suc m)" "6 \<le> Suc (Suc (Suc m))"
    "6 \<le> Suc (Suc (Suc (Suc m)))"
    using m(2) by simp_all
  have u: "10 \<le> m" "10 \<le> Suc m" "10 \<le> Suc (Suc m)" using m(2) by simp_all
  show ?thesis
    by (simp add: m(1) describe_by_phases getFileBytes_def localPath_def
        solo_AtDownload solo_AtStatFolder solo_AtMkdirAll solo_AtStatFile solo_AtWriteFile
        solo_failedWith [OF f(1)] solo_failedWith [OF f(2)] solo_failedWith [OF f(3)]
        solo_failedWith [OF f(4)] solo_failedWith [OF f(5)]
        solo_upload [OF u(1)] solo_upload [OF u(2)] solo_upload [OF u(3)]
        Let_def del: solo.simps
        split: sum.splits prod.splits option.splits stat_result.splits)
qed


















lemmas conc_defs = cstep_def start_def failedWith_def localPath_def describeBytes_def
  uploadFileToGCS_def object_write_def object_Attrs_def os_Stat_def os_MkdirAll_def
  os_WriteFile_def csvRecord_def emit_def Let_def

text \<open>
  Two further ways in which the claim on local files fails, which its amended form takes
  up. A second listed
  file with the same display name can be written over the first one's file: both
  goroutines see no entry, both write, and the file of the first asset (five bytes
  downloaded) ends with the two bytes of the second. And the local path is what
  \<open>filepath.Join\<close> makes of the display name, which need not lie under the local folder.
\<close>

lemma same_name_race:
  "downloaded (snd (procs (stateOf (crun sv_by_id g_run [0, 0, 0, 0, 1, 1, 1, 0, 1]
        (start w_empty [f_a, f_a2]))) ! 0)) = Some [1, 2, 3, 4, 5]
   \<and> fs (shared (stateOf (crun sv_by_id g_run [0, 0, 0, 0, 1, 1, 1, 0, 1]
        (start w_empty [f_a, f_a2])))) ''local/a.jpg'' = Some (Reg [7, 8])"
  by (simp add: conc_defs sv_by_id_def f_a2_def env_defs)

lemma unix_Join_climbs: "unix_Join ''local'' ''../evil.jpg'' = ''evil.jpg''"
  by (simp add: unix_Join_def filepath_Clean_def Let_def)

lemma name_outside_local_folder:
  "fst (getFileBytes sv_unix g_run w_empty f_evil) = Ret (Inr [1, 2, 3, 4, 5])
   \<and> localPath sv_unix g_run f_evil = ''evil.jpg''
   \<and> fs (snd (getFileBytes sv_unix g_run w_empty f_evil)) ''evil.jpg'' = Some (Reg [1, 2, 3, 4, 5])"
  by (simp add: run_defs localPath_def sv_unix_def f_evil_def env_defs unix_Join_climbs)


lemma started_is_take:
  "n \<le> length xs \<Longrightarrow> map (\<lambda>i. xs ! i) [0..<n] = take n xs"
  by (simp add: list_eq_iff_nth_eq)

lemma started_both:
  "map (\<lambda>i. [f_a, f_b] ! i) [0..<fileCountOf g_run [f_a, f_b]] = [f_a, f_b]"
  using started_is_take [of "fileCountOf g_run [f_a, f_b]" "[f_a, f_b]"]
  by (simp add: fileCountOf_def g_run_def)

lemma listed_both:
  "listFiles sv_first_download_error w_empty (sourceFolderID g_run) (mimeTypes g_run)
     = (Ret [f_a, f_b], w_empty)"
  by (simp add: listFiles_def sv_first_download_error_def sv_ok_def List.map_filter_def)

lemma cmain_exits:
  assumes "listFiles sv w (sourceFolderID g) (mimeTypes g) = (Ret fileList, w1)"
    and "createErr sv = None"
    and "map (\<lambda>i. fileList ! i) [0..<fileCountOf g fileList] = started"
    and "exitMessage (crun sv g sched (start w1 started)) = Some e"
  shows "cmain sv g w old sched flushOk = crun sv g sched (start w1 started)"
  using assms
  by (cases "crun sv g sched (start w1 started)") (simp_all add: cmain_def Let_def)

lemma itoa_2: "itoa 2 = ''2''"
  by (simp add: itoa_def digitsOf.simps digitChar_def)

text \<open>
  C1. Every processed asset is to yield one record and the table is to have as many rows
  as files were processed. Two files are listed and no cap is set. The goroutine of
  the second file runs to its end and hands its record to the writer; then the download
  call of the first file returns an error, and \<open>getFileBytes\<close> exits the process: the
  first file has no record, the deferred flush never runs, and the table has no row.
  The same happens when the first file's goroutine runs first.
\<close>

theorem C1_download_error_leaves_table_empty:
  "fst (listFiles sv_first_download_error w_empty (sourceFolderID g_run) (mimeTypes g_run))
     = Ret [f_a, f_b]
   \<and> maxFiles g_run = 0
   \<and> exitMessage (cmain sv_first_download_error g_run w_empty []
        [1, 1, 1, 1, 1, 1, 1, 1, 1, 1, 1, 1, 1, 1, 1, 0] True)
     = Some ''Error downloading file: timeout''
   \<and> written (stateOf (cmain sv_first_download_error g_run w_empty []
        [1, 1, 1, 1, 1, 1, 1, 1, 1, 1, 1, 1, 1, 1, 1, 0] True))
     = recordTokens [''b.png'', ''2'', ''image/png'', ''id2'', ''a red shoe'']
   \<and> table (stateOf (cmain sv_first_download_error g_run w_empty []
        [1, 1, 1, 1, 1, 1, 1, 1, 1, 1, 1, 1, 1, 1, 1, 0] True)) = []
   \<and> exitMessage (cmain sv_first_download_error g_run w_empty [] [0] True)
     = Some ''Error downloading file: timeout''
   \<and> table (stateOf (cmain sv_first_download_error g_run w_empty [] [0] True)) = []"
proof -
  have l: "fst (listFiles sv_first_download_error w_empty (sourceFolderID g_run) (mimeTypes g_run))
     = Ret [f_a, f_b]"
    using listed_both by simp
  have m: "maxFiles g_run = 0" by (simp add: g_run_def)
  have e1: "exitMessage (crun sv_first_download_error g_run
        [1, 1, 1, 1, 1, 1, 1, 1, 1, 1, 1, 1, 1, 1, 1, 0] (start w_empty [f_a, f_b]))
      = Some ''Error downloading file: timeout''
    \<and> written (stateOf (crun sv_first_download_error g_run
        [1, 1, 1, 1, 1, 1, 1, 1, 1, 1, 1, 1, 1, 1, 1, 0] (start w_empty [f_a, f_b])))
      = recordTokens [''b.png'', ''2'', ''image/png'', ''id2'', ''a red shoe'']
    \<and> table (stateOf (crun sv_first_download_error g_run
        [1, 1, 1, 1, 1, 1, 1, 1, 1, 1, 1, 1, 1, 1, 1, 0] (start w_empty [f_a, f_b]))) = []"
    by (simp add: conc_defs sv_first_download_error_def env_defs itoa_2)
  have e2: "exitMessage (crun sv_first_download_error g_run [0] (start w_empty [f_a, f_b]))
      = Some ''Error downloading file: timeout''
    \<and> table (stateOf (crun sv_first_download_error g_run [0] (start w_empty [f_a, f_b]))) = []"
    by (simp add: conc_defs sv_first_download_error_def env_defs)
  have c: "createErr sv_first_download_error = None"
    by (simp add: sv_first_download_error_def sv_ok_def)
  have r1: "cmain sv_first_download_error g_run w_empty []
        [1, 1, 1, 1, 1, 1, 1, 1, 1, 1, 1, 1, 1, 1, 1, 0] True
      = crun sv_first_download_error g_run
        [1, 1, 1, 1, 1, 1, 1, 1, 1, 1, 1, 1, 1, 1, 1, 0] (start w_empty [f_a, f_b])"
    using cmain_exits [OF listed_both c started_both] e1 by blast
  have r2: "cmain sv_first_download_error g_run w_empty [] [0] True
      = crun sv_first_download_error g_run [0] (start w_empty [f_a, f_b])"
    using cmain_exits [OF listed_both c started_both] e2 by blast
  show ?thesis using l m e1 e2 by (simp only: r1 r2)
qed

text \<open>
  C2. Nothing serialises the calls of \<open>csvWriter.Write\<close>. Two files are processed; both
  goroutines reach the write of their record, and then take turns, one piece each. The
  writer receives the fields of the two records interleaved, which is neither record
  followed by the other.
\<close>

theorem C2_records_interleave_in_the_writer:
  "exitMessage (crun sv_ok g_run
      [0, 0, 0, 0, 0, 0, 0, 0, 0, 1, 1, 1, 1, 1, 1, 1, 1, 0, 1, 0, 1, 0, 1, 0, 1, 0, 1, 0, 1]
      (start w_empty [f_a, f_b])) = None
   \<and> map snd (procs (stateOf (crun sv_ok g_run
      [0, 0, 0, 0, 0, 0, 0, 0, 0, 1, 1, 1, 1, 1, 1, 1, 1]
      (start w_empty [f_a, f_b]))))
     = [AtCsvWrite [''a.jpg'', ''5'', ''image/jpeg'', ''id1'', ''a red shoe''] 0,
        AtCsvWrite [''b.png'', ''5'', ''image/png'', ''id2'', ''a red shoe''] 0]
   \<and> map snd (procs (stateOf (crun sv_ok g_run
      [0, 0, 0, 0, 0, 0, 0, 0, 0, 1, 1, 1, 1, 1, 1, 1, 1, 0, 1, 0, 1, 0, 1, 0, 1, 0, 1, 0, 1]
      (start w_empty [f_a, f_b])))) = [Finished, Finished]
   \<and> written (stateOf (crun sv_ok g_run
      [0, 0, 0, 0, 0, 0, 0, 0, 0, 1, 1, 1, 1, 1, 1, 1, 1, 0, 1, 0, 1, 0, 1, 0, 1, 0, 1, 0, 1]
      (start w_empty [f_a, f_b])))
     = [Field ''a.jpg'', Field ''b.png'', Comma, Field ''5'', Comma, Field ''5'', Comma,
        Field ''image/jpeg'', Comma, Field ''image/png'', Comma, Field ''id1'', Comma,
        Field ''id2'', Comma, Field ''a red shoe'', Comma, Field ''a red shoe'',
        Newline, Newline]
   \<and> [Field ''a.jpg'', Field ''b.png'', Comma, Field ''5'', Comma, Field ''5'', Comma,
        Field ''image/jpeg'', Comma, Field ''image/png'', Comma, Field ''id1'', Comma,
        Field ''id2'', Comma, Field ''a red shoe'', Comma, Field ''a red shoe'',
        Newline, Newline]
     \<noteq> recordTokens [''a.jpg'', ''5'', ''image/jpeg'', ''id1'', ''a red shoe'']
       @ recordTokens [''b.png'', ''5'', ''image/png'', ''id2'', ''a red shoe'']
   \<and> [Field ''a.jpg'', Field ''b.png'', Comma, Field ''5'', Comma, Field ''5'', Comma,
        Field ''image/jpeg'', Comma, Field ''image/png'', Comma, Field ''id1'', Comma,
        Field ''id2'', Comma, Field ''a red shoe'', Comma, Field ''a red shoe'',
        Newline, Newline]
     \<noteq> recordTokens [''b.png'', ''5'', ''image/png'', ''id2'', ''a red shoe'']
       @ recordTokens [''a.jpg'', ''5'', ''image/jpeg'', ''id1'', ''a red shoe'']"
  by (simp add: conc_defs env_defs itoa_5)

text \<open>
  C4. A failed download is to stay with its asset. When the download call of the first
  file returns an error, \<open>getFileBytes\<close> does not return it, as it does for every other
  failure: it exits the process. The task ends without a record, and the goroutine of
  the second file, which was under way, is cut off without one.
\<close>

theorem C4_download_error_ends_the_process:
  "getFileBytes sv_first_download_error g_run w_empty f_a
     = (Fatal ''Error downloading file: timeout'', emit (CallDownload ''id1'') w_empty)
   \<and> task sv_first_download_error g_run w_empty f_a
     = (Fatal ''Error downloading file: timeout'', emit (CallDownload ''id1'') w_empty)
   \<and> csvRows (emit (CallDownload ''id1'') w_empty) = []
   \<and> exitMessage (crun sv_first_download_error g_run [1, 1, 0] (start w_empty [f_a, f_b]))
     = Some ''Error downloading file: timeout''
   \<and> map snd (procs (stateOf (crun sv_first_download_error g_run [1, 1, 0]
        (start w_empty [f_a, f_b])))) = [AtDownload, AtMkdirAll [7, 8]]
   \<and> written (stateOf (crun sv_first_download_error g_run [1, 1, 0]
        (start w_empty [f_a, f_b]))) = []"
  by (simp add: run_defs conc_defs sv_first_download_error_def env_defs)

end
